theory Spec2Isabelle
  imports Complex_Main "HOL-Library.Word"
begin

section \<open>Bytes, keys and JavaScript numbers\<close>

text \<open>
  A byte is an 8-bit word and a buffer is a list of bytes. A \<open>PublicKey\<close> is the
  buffer \<open>toBuffer()\<close> returns; a well-formed key has 32 bytes. A \<open>Keypair\<close> is
  represented by its \<open>publicKey\<close>.
\<close>

type_synonym u8 = "8 word"
type_synonym PublicKey = "u8 list"

subsection \<open>JavaScript strings\<close>

text \<open>
  A JavaScript string is a sequence of 16-bit code units; \<open>s.length\<close> is their
  number, so the empty string is the empty list. \<open>js\<close> writes a string literal of
  characters below 256 as a JavaScript string.
\<close>

type_synonym u16 = "16 word"
type_synonym jsstring = "u16 list"

definition js :: "string \<Rightarrow> jsstring" where
  "js s = map (\<lambda>c. of_nat (of_char c)) s"

text \<open>The two halves of a surrogate pair.\<close>

definition is_high :: "u16 \<Rightarrow> bool" where
  "is_high u \<longleftrightarrow> 0xD800 \<le> unat u \<and> unat u < 0xDC00"

definition is_low :: "u16 \<Rightarrow> bool" where
  "is_low u \<longleftrightarrow> 0xDC00 \<le> unat u \<and> unat u < 0xE000"

text \<open>
  The code points \<open>Buffer.from(s, 'utf8')\<close> encodes: a high surrogate followed by a
  low one is one code point from \<open>0x10000\<close> on, every other surrogate is replaced by
  \<open>U+FFFD\<close>, every other code unit is its own code point.
\<close>

fun code_points :: "jsstring \<Rightarrow> nat list" where
  "code_points [] = []"
| "code_points [u] = [if is_high u \<or> is_low u then 0xFFFD else unat u]"
| "code_points (u # v # us) =
     (if is_high u then
        (if is_low v
         then (0x10000 + (unat u - 0xD800) * 0x400 + (unat v - 0xDC00)) # code_points us
         else 0xFFFD # code_points (v # us))
      else if is_low u then 0xFFFD # code_points (v # us)
      else unat u # code_points (v # us))"

text \<open>The UTF-8 bytes of one code point.\<close>

definition utf8_bytes :: "nat \<Rightarrow> nat list" where
  "utf8_bytes c =
     (if c < 0x80 then [c]
      else if c < 0x800 then [0xC0 + c div 0x40, 0x80 + c mod 0x40]
      else if c < 0x10000 then
        [0xE0 + c div 0x1000, 0x80 + c div 0x40 mod 0x40, 0x80 + c mod 0x40]
      else
        [0xF0 + c div 0x40000, 0x80 + c div 0x1000 mod 0x40, 0x80 + c div 0x40 mod 0x40,
         0x80 + c mod 0x40])"

text \<open>\<open>Buffer.from(s)\<close> and \<open>Buffer.from(s, 'utf8')\<close> on a string.\<close>

definition Buffer_from :: "jsstring \<Rightarrow> u8 list" where
  "Buffer_from s = map of_nat (concat (map utf8_bytes (code_points s)))"

text \<open>A string is well formed when every surrogate in it is half of a pair.\<close>

fun well_formed :: "jsstring \<Rightarrow> bool" where
  "well_formed [] = True"
| "well_formed [u] = (\<not> is_high u \<and> \<not> is_low u)"
| "well_formed (u # v # us) =
     (if is_high u then is_low v \<and> well_formed us
      else \<not> is_low u \<and> well_formed (v # us))"

subsection \<open>Text in a stored record\<close>

text \<open>
  The text of a stored record is kept as the bytes the account holds: a \<open>string\<close>
  with one \<open>char\<close> per UTF-8 byte.
\<close>

definition utf8 :: "string \<Rightarrow> u8 list" where
  "utf8 s = map (\<lambda>c. of_nat (of_char c)) s"

definition from_utf8 :: "u8 list \<Rightarrow> string" where
  "from_utf8 bs = map (\<lambda>b. char_of (unat b)) bs"

subsection \<open>Numbers and errors\<close>

text \<open>
  The type \<open>number\<close> of the source is a double. Every finite double is a rational, so
  a finite number is modelled by a rational; the three other values are kept apart.
\<close>

datatype number = Num rat | NaN | PosInfinity | NegInfinity

text \<open>The comparison \<open>amount <= 0\<close>: false on \<open>NaN\<close>.\<close>

fun le_zero :: "number \<Rightarrow> bool" where
  "le_zero (Num r) = (r \<le> 0)"
| "le_zero NaN = False"
| "le_zero PosInfinity = False"
| "le_zero NegInfinity = True"

text \<open>
  Every \<open>throw\<close> of the client and every rejection of a collaborator is a value of
  \<open>error\<close>. The client throws plain \<open>Error\<close> objects that differ in their message;
  each message is one constructor:
  \<^item> \<open>InvalidAmount\<close>: 'Payment amount must be greater than 0';
  \<^item> \<open>InvalidPaymentId\<close>: 'Payment ID cannot be empty';
  \<^item> \<open>PaymentAlreadyExists\<close>: 'Payment with ID "..." already exists';
  \<^item> \<open>PaymentNotFound\<close>: 'Payment with ID "..." not found';
  \<^item> \<open>InvalidStateTransition\<close>: 'Payment is ..., cannot complete' (or 'cannot cancel');
  \<^item> \<open>RangeError\<close>: thrown by \<open>BigInt\<close>, \<open>writeBigUInt64LE\<close> and \<open>writeUInt32LE\<close>.
  The other constructors are the rejections of the address derivation, of the account
  codec, of the transport and of the on-chain processor.
\<close>

datatype error =
    InvalidAmount
  | InvalidPaymentId
  | PaymentAlreadyExists
  | PaymentNotFound
  | InvalidStateTransition
  | RangeError
  | AddressDerivationError
  | MalformedAccountError
  | TransportError
  | Unauthorized
  | RecipientMismatch
  | InsufficientEscrowBalance
  | InsufficientFunds
  | AddressInUse

text \<open>\<open>BigInt(value)\<close> throws a \<open>RangeError\<close> unless the number is an integer.\<close>

fun BigInt :: "number \<Rightarrow> error + int" where
  "BigInt (Num r) = (if of_int \<lfloor>r\<rfloor> = r then Inr \<lfloor>r\<rfloor> else Inl RangeError)"
| "BigInt NaN = Inl RangeError"
| "BigInt PosInfinity = Inl RangeError"
| "BigInt NegInfinity = Inl RangeError"

text \<open>The \<open>n\<close> low bytes of a natural number, least significant first.\<close>

fun le_bytes :: "nat \<Rightarrow> nat \<Rightarrow> u8 list" where
  "le_bytes 0 v = []"
| "le_bytes (Suc n) v = of_nat (v mod 256) # le_bytes n (v div 256)"

text \<open>The value of a buffer read least significant byte first.\<close>

fun read_le :: "u8 list \<Rightarrow> nat" where
  "read_le [] = 0"
| "read_le (b # bs) = unat b + 256 * read_le bs"

text \<open>
  \<open>Buffer.alloc(8).writeBigUInt64LE(v)\<close> and \<open>Buffer.alloc(4).writeUInt32LE(n)\<close>:
  both throw a \<open>RangeError\<close> when the value does not fit.
\<close>

definition writeBigUInt64LE :: "int \<Rightarrow> error + u8 list" where
  "writeBigUInt64LE v = (if 0 \<le> v \<and> v < 2 ^ 64 then Inr (le_bytes 8 (nat v)) else Inl RangeError)"

definition writeUInt32LE :: "nat \<Rightarrow> error + u8 list" where
  "writeUInt32LE n = (if n < 2 ^ 32 then Inr (le_bytes 4 n) else Inl RangeError)"

definition serializeU64 :: "number \<Rightarrow> error + u8 list" where
  "serializeU64 v = (case BigInt v of Inl e \<Rightarrow> Inl e | Inr i \<Rightarrow> writeBigUInt64LE i)"

definition serializeString :: "jsstring \<Rightarrow> error + u8 list" where
  "serializeString v =
     (let stringBytes = Buffer_from v in
      case writeUInt32LE (length stringBytes) of
        Inl e \<Rightarrow> Inl e
      | Inr lengthBuffer \<Rightarrow> Inr (lengthBuffer @ stringBytes))"

section \<open>The Payment record and its status\<close>

datatype PaymentStatus = Pending | Completed | Cancelled

text \<open>The numeric values of the enum.\<close>

fun status_value :: "PaymentStatus \<Rightarrow> u8" where
  "status_value Pending = 0"
| "status_value Completed = 1"
| "status_value Cancelled = 2"

text \<open>
  \<open>paymentStatusToString\<close> takes the number found in a decoded record, which need not
  be one of the three values of the enum.
\<close>

definition paymentStatusToString :: "u8 \<Rightarrow> string" where
  "paymentStatusToString s =
     (if s = status_value Pending then ''Pending''
      else if s = status_value Completed then ''Completed''
      else if s = status_value Cancelled then ''Cancelled''
      else ''Unknown'')"

text \<open>
  The class \<open>Payment\<close>. The two 64-bit fields are words: \<open>unat\<close> reads the amount,
  \<open>sint\<close> the timestamp. The status is the number stored in the \<open>u8\<close> field.
\<close>

record Payment =
  payer :: "u8 list"
  recipient :: "u8 list"
  amount :: "64 word"
  payment_id :: string
  status :: u8
  timestamp :: "64 word"

section \<open>The account codec\<close>

text \<open>
  The schema \<open>PaymentSchema\<close> of the client: the fields of the struct in order, each
  with its kind.
\<close>

datatype FieldType = FixedArray nat | U8 | U64 | I64 | BorshString

definition PaymentSchema :: "(string \<times> FieldType) list" where
  "PaymentSchema =
     [(''payer'', FixedArray 32),
      (''recipient'', FixedArray 32),
      (''amount'', U64),
      (''payment_id'', BorshString),
      (''status'', U8),
      (''timestamp'', I64)]"

text \<open>The value of a field of an object.\<close>

datatype FieldValue = Bytes "u8 list" | Num8 u8 | Num64 "64 word" | Str string

text \<open>
  The codec that writes and reads the bytes of a record is not part of the sources:
  the client only holds the schema and calls the \<open>deserialize\<close> it imports, which
  is a parameter of the client (see \<open>deserializer\<close> below). The definitions from
  \<open>encode_field\<close> to \<open>deserialize\<close> below, except for \<open>Payment_fields\<close> and
  \<open>new_Payment\<close>, are the account codec of sections 4.2 and 6 of the
  specification, run over the schema of the client. It is the codec of the processor,
  and the decoder the examples hand to the client.
\<close>

text \<open>
  Modelled from the spec: the encoding of one field, missing from the sources. A
  fixed-width field is little-endian (the signed one in two's complement), a string
  is a 4-byte little-endian length followed by its UTF-8 bytes, a fixed array is its
  bytes.
\<close>

fun encode_field :: "FieldType \<Rightarrow> FieldValue \<Rightarrow> u8 list option" where
  "encode_field (FixedArray n) (Bytes bs) = (if length bs = n then Some bs else None)"
| "encode_field U8 (Num8 b) = Some [b]"
| "encode_field U64 (Num64 v) = Some (le_bytes 8 (unat v))"
| "encode_field I64 (Num64 v) = Some (le_bytes 8 (unat v))"
| "encode_field BorshString (Str s) =
     (if length (utf8 s) < 2 ^ 32 then Some (le_bytes 4 (length (utf8 s)) @ utf8 s) else None)"
| "encode_field _ _ = None"

text \<open>
  Modelled from the spec: the encoding of a struct, missing from the sources. The
  fields follow each other in the order of the schema, with no padding.
\<close>

fun serialize_fields ::
  "(string \<times> FieldType) list \<Rightarrow> (string \<Rightarrow> FieldValue option) \<Rightarrow> u8 list option" where
  "serialize_fields [] obj = Some []"
| "serialize_fields ((name, ty) # fs) obj =
     (case obj name of
        None \<Rightarrow> None
      | Some v \<Rightarrow>
          (case encode_field ty v of
             None \<Rightarrow> None
           | Some bs \<Rightarrow>
               (case serialize_fields fs obj of
                  None \<Rightarrow> None
                | Some rest \<Rightarrow> Some (bs @ rest))))"

text \<open>
  Modelled from the spec: the decoding of one field, missing from the sources. It
  takes the bytes left to read and returns the value and the rest, and fails on a
  truncated buffer or a length prefix that exceeds the bytes left.
\<close>

fun decode_field :: "FieldType \<Rightarrow> u8 list \<Rightarrow> (FieldValue \<times> u8 list) option" where
  "decode_field (FixedArray n) bs =
     (if n \<le> length bs then Some (Bytes (take n bs), drop n bs) else None)"
| "decode_field U8 bs = (case bs of [] \<Rightarrow> None | b # rest \<Rightarrow> Some (Num8 b, rest))"
| "decode_field U64 bs =
     (if 8 \<le> length bs then Some (Num64 (of_nat (read_le (take 8 bs))), drop 8 bs) else None)"
| "decode_field I64 bs =
     (if 8 \<le> length bs then Some (Num64 (of_nat (read_le (take 8 bs))), drop 8 bs) else None)"
| "decode_field BorshString bs =
     (if 4 \<le> length bs then
        (let n = read_le (take 4 bs); rest = drop 4 bs in
         if n \<le> length rest then Some (Str (from_utf8 (take n rest)), drop n rest) else None)
      else None)"

text \<open>
  Modelled from the spec: the decoding of a struct, missing from the sources, field
  after field in the order of the schema.
\<close>

fun deserialize_fields ::
  "(string \<times> FieldType) list \<Rightarrow> u8 list \<Rightarrow> ((string \<times> FieldValue) list \<times> u8 list) option" where
  "deserialize_fields [] bs = Some ([], bs)"
| "deserialize_fields ((name, ty) # fs) bs =
     (case decode_field ty bs of
        None \<Rightarrow> None
      | Some (v, rest) \<Rightarrow>
          (case deserialize_fields fs rest of
             None \<Rightarrow> None
           | Some (vs, rest') \<Rightarrow> Some ((name, v) # vs, rest')))"

text \<open>The fields of a \<open>Payment\<close> object, by name.\<close>

definition Payment_fields :: "Payment \<Rightarrow> string \<Rightarrow> FieldValue option" where
  "Payment_fields p =
     map_of
       [(''payer'', Bytes (payer p)),
        (''recipient'', Bytes (recipient p)),
        (''amount'', Num64 (amount p)),
        (''payment_id'', Str (payment_id p)),
        (''status'', Num8 (status p)),
        (''timestamp'', Num64 (timestamp p))]"

text \<open>The constructor \<open>new Payment(fields)\<close> on the decoded fields.\<close>

definition new_Payment :: "(string \<Rightarrow> FieldValue option) \<Rightarrow> Payment option" where
  "new_Payment obj =
     (case (obj ''payer'', obj ''recipient'', obj ''amount'',
            obj ''payment_id'', obj ''status'', obj ''timestamp'') of
        (Some (Bytes p), Some (Bytes r), Some (Num64 a), Some (Str i), Some (Num8 s),
         Some (Num64 t)) \<Rightarrow>
          Some \<lparr>payer = p, recipient = r, amount = a, payment_id = i, status = s,
                timestamp = t\<rparr>
      | _ \<Rightarrow> None)"

text \<open>
  Modelled from the spec: \<open>encode(record) -> bytes\<close> of the account codec, missing
  from the sources, on a \<open>Payment\<close> object.
\<close>

definition serialize :: "(string \<times> FieldType) list \<Rightarrow> Payment \<Rightarrow> u8 list option" where
  "serialize schema p = serialize_fields schema (Payment_fields p)"

text \<open>
  Modelled from the spec: \<open>decode(bytes) -> record\<close> of the account codec, missing
  from the sources. It fails with \<open>MalformedAccountError\<close> when the length or the
  structure of the bytes does not match the schema; bytes left over after the last
  field do not match it.
\<close>

definition deserialize :: "(string \<times> FieldType) list \<Rightarrow> u8 list \<Rightarrow> error + Payment" where
  "deserialize schema bs =
     (case deserialize_fields schema bs of
        None \<Rightarrow> Inl MalformedAccountError
      | Some (vs, rest) \<Rightarrow>
          (if rest \<noteq> [] then Inl MalformedAccountError
           else case new_Payment (map_of vs) of
             None \<Rightarrow> Inl MalformedAccountError
           | Some p \<Rightarrow> Inr p))"

text \<open>
  A valid record: 32-byte payer and recipient, a payment id of at least one byte whose
  length fits the 4-byte prefix, and one of the three statuses. The amount and the
  timestamp are 64-bit by their type.
\<close>

definition valid_Payment :: "Payment \<Rightarrow> bool" where
  "valid_Payment p \<longleftrightarrow>
     length (payer p) = 32 \<and> length (recipient p) = 32 \<and>
     1 \<le> length (payment_id p) \<and> length (payment_id p) < 2 ^ 32 \<and>
     status p \<in> {status_value Pending, status_value Completed, status_value Cancelled}"

section \<open>Instructions and the connection\<close>

text \<open>An entry of \<open>keys\<close>, and the instruction the client hands to the transaction.\<close>

record AccountMeta =
  pubkey :: PublicKey
  isSigner :: bool
  isWritable :: bool

record TransactionInstruction =
  keys :: "AccountMeta list"
  programId :: PublicKey
  data :: "u8 list"

text \<open>
  The account \<open>getAccountInfo\<close> returns: its balance and its bytes (the field
  \<open>data\<close>, the only one the client reads).
\<close>

record AccountInfo =
  lamports :: nat
  acct_data :: "u8 list"

text \<open>\<open>SystemProgram.programId\<close>, the all-zero key of the library.\<close>

definition SystemProgram_programId :: PublicKey where
  "SystemProgram_programId = replicate 32 0"

text \<open>
  The connection is the client's only access to the chain. The state of the chain is a
  parameter \<open>'w\<close>. Reading an account may throw; sending the transaction (one
  instruction, signed by the payer) returns the signature or throws, and is the only
  call that can change the state.
\<close>

record 'w Connection =
  getAccountInfo :: "'w \<Rightarrow> PublicKey \<Rightarrow> error + AccountInfo option"
  sendAndConfirmTransaction ::
    "'w \<Rightarrow> TransactionInstruction \<Rightarrow> PublicKey \<Rightarrow> (error + string) \<times> 'w"

text \<open>
  \<open>PublicKey.findProgramAddress(seeds, programId)\<close> is a function of the library: it
  is a parameter of the client, returning the address and its bump or throwing.
\<close>

type_synonym findProgramAddress = "u8 list list \<Rightarrow> PublicKey \<Rightarrow> error + (PublicKey \<times> nat)"

text \<open>
  \<open>deserialize(schema, Payment, data)\<close> is the function the client imports from the
  codec library: it is a parameter of the client too, returning the object or throwing.
\<close>

type_synonym deserializer = "(string \<times> FieldType) list \<Rightarrow> u8 list \<Rightarrow> error + Payment"

section \<open>The client\<close>

definition getPaymentPDA ::
  "findProgramAddress \<Rightarrow> PublicKey \<Rightarrow> PublicKey \<Rightarrow> jsstring \<Rightarrow> error + (PublicKey \<times> nat)" where
  "getPaymentPDA fpa pid payerKey paymentId =
     fpa [Buffer_from (js ''payment''), payerKey, Buffer_from paymentId] pid"

text \<open>
  \<open>initializePayment\<close> up to the construction of the instruction: the validation of
  the inputs, the derivation of the address, the check that no account exists there,
  and the instruction itself.
\<close>

definition initializePayment_instruction ::
  "findProgramAddress \<Rightarrow> 'w Connection \<Rightarrow> PublicKey \<Rightarrow> 'w \<Rightarrow>
   PublicKey \<Rightarrow> PublicKey \<Rightarrow> number \<Rightarrow> jsstring \<Rightarrow> error + TransactionInstruction" where
  "initializePayment_instruction fpa conn pid w payerKey recipientKey amt paymentId =
     (if le_zero amt then Inl InvalidAmount
      else if paymentId = [] then Inl InvalidPaymentId
      else case getPaymentPDA fpa pid payerKey paymentId of
        Inl e \<Rightarrow> Inl e
      | Inr (paymentPDA, bump) \<Rightarrow>
          (case getAccountInfo conn w paymentPDA of
             Inl e \<Rightarrow> Inl e
           | Inr (Some existingAccount) \<Rightarrow> Inl PaymentAlreadyExists
           | Inr None \<Rightarrow>
               (case serializeU64 amt of
                  Inl e \<Rightarrow> Inl e
                | Inr amountBytes \<Rightarrow>
                    (case serializeString paymentId of
                       Inl e \<Rightarrow> Inl e
                     | Inr idBytes \<Rightarrow>
                         Inr \<lparr>keys =
                                [\<lparr>pubkey = payerKey, isSigner = True, isWritable = True\<rparr>,
                                 \<lparr>pubkey = paymentPDA, isSigner = False, isWritable = True\<rparr>,
                                 \<lparr>pubkey = recipientKey, isSigner = False, isWritable = False\<rparr>,
                                 \<lparr>pubkey = SystemProgram_programId, isSigner = False,
                                    isWritable = False\<rparr>],
                              programId = pid,
                              data = [0] @ amountBytes @ idBytes\<rparr>))))"

text \<open>
  The whole operation: an error thrown before the transaction is sent is logged and
  thrown again, and the state is the one the operation started in.
\<close>

definition initializePayment ::
  "findProgramAddress \<Rightarrow> 'w Connection \<Rightarrow> PublicKey \<Rightarrow> 'w \<Rightarrow>
   PublicKey \<Rightarrow> PublicKey \<Rightarrow> number \<Rightarrow> jsstring \<Rightarrow> (error + string) \<times> 'w" where
  "initializePayment fpa conn pid w payerKey recipientKey amt paymentId =
     (case initializePayment_instruction fpa conn pid w payerKey recipientKey amt paymentId of
        Inl e \<Rightarrow> (Inl e, w)
      | Inr instruction \<Rightarrow> sendAndConfirmTransaction conn w instruction payerKey)"

text \<open>
  \<open>getPayment\<close>: the body of the \<open>try\<close> block, then the \<open>catch\<close> that logs
  the error and returns \<open>null\<close>.
\<close>

definition getPayment_try ::
  "findProgramAddress \<Rightarrow> 'w Connection \<Rightarrow> deserializer \<Rightarrow> PublicKey \<Rightarrow> 'w \<Rightarrow>
   PublicKey \<Rightarrow> jsstring \<Rightarrow> error + Payment option" where
  "getPayment_try fpa conn dec pid w payerKey paymentId =
     (case getPaymentPDA fpa pid payerKey paymentId of
        Inl e \<Rightarrow> Inl e
      | Inr (paymentPDA, bump) \<Rightarrow>
          (case getAccountInfo conn w paymentPDA of
             Inl e \<Rightarrow> Inl e
           | Inr None \<Rightarrow> Inr None
           | Inr (Some accountInfo) \<Rightarrow>
               (case dec PaymentSchema (acct_data accountInfo) of
                  Inl e \<Rightarrow> Inl e
                | Inr payment \<Rightarrow> Inr (Some payment))))"

definition getPayment ::
  "findProgramAddress \<Rightarrow> 'w Connection \<Rightarrow> deserializer \<Rightarrow> PublicKey \<Rightarrow> 'w \<Rightarrow>
   PublicKey \<Rightarrow> jsstring \<Rightarrow> Payment option" where
  "getPayment fpa conn dec pid w payerKey paymentId =
     (case getPayment_try fpa conn dec pid w payerKey paymentId of
        Inl e \<Rightarrow> None
      | Inr payment \<Rightarrow> payment)"

definition paymentExists ::
  "findProgramAddress \<Rightarrow> 'w Connection \<Rightarrow> deserializer \<Rightarrow> PublicKey \<Rightarrow> 'w \<Rightarrow>
   PublicKey \<Rightarrow> jsstring \<Rightarrow> bool" where
  "paymentExists fpa conn dec pid w payerKey paymentId =
     (getPayment fpa conn dec pid w payerKey paymentId \<noteq> None)"

definition getPaymentStatus ::
  "findProgramAddress \<Rightarrow> 'w Connection \<Rightarrow> deserializer \<Rightarrow> PublicKey \<Rightarrow> 'w \<Rightarrow>
   PublicKey \<Rightarrow> jsstring \<Rightarrow> u8 option" where
  "getPaymentStatus fpa conn dec pid w payerKey paymentId =
     (case getPayment fpa conn dec pid w payerKey paymentId of
        None \<Rightarrow> None
      | Some payment \<Rightarrow> Some (status payment))"

text \<open>\<open>completePayment\<close> up to the construction of the instruction.\<close>

definition completePayment_instruction ::
  "findProgramAddress \<Rightarrow> 'w Connection \<Rightarrow> deserializer \<Rightarrow> PublicKey \<Rightarrow> 'w \<Rightarrow>
   PublicKey \<Rightarrow> PublicKey \<Rightarrow> jsstring \<Rightarrow> error + TransactionInstruction" where
  "completePayment_instruction fpa conn dec pid w payerKey recipientKey paymentId =
     (case getPaymentPDA fpa pid payerKey paymentId of
        Inl e \<Rightarrow> Inl e
      | Inr (paymentPDA, bump) \<Rightarrow>
          (case getPayment fpa conn dec pid w payerKey paymentId of
             None \<Rightarrow> Inl PaymentNotFound
           | Some payment \<Rightarrow>
               (if status payment \<noteq> status_value Pending then Inl InvalidStateTransition
                else
                  Inr \<lparr>keys =
                         [\<lparr>pubkey = payerKey, isSigner = True, isWritable = True\<rparr>,
                          \<lparr>pubkey = paymentPDA, isSigner = False, isWritable = True\<rparr>,
                          \<lparr>pubkey = recipientKey, isSigner = False, isWritable = True\<rparr>,
                          \<lparr>pubkey = SystemProgram_programId, isSigner = False,
                             isWritable = False\<rparr>],
                       programId = pid,
                       data = [1]\<rparr>)))"

definition completePayment ::
  "findProgramAddress \<Rightarrow> 'w Connection \<Rightarrow> deserializer \<Rightarrow> PublicKey \<Rightarrow> 'w \<Rightarrow>
   PublicKey \<Rightarrow> PublicKey \<Rightarrow> jsstring \<Rightarrow> (error + string) \<times> 'w" where
  "completePayment fpa conn dec pid w payerKey recipientKey paymentId =
     (case completePayment_instruction fpa conn dec pid w payerKey recipientKey paymentId of
        Inl e \<Rightarrow> (Inl e, w)
      | Inr instruction \<Rightarrow> sendAndConfirmTransaction conn w instruction payerKey)"

text \<open>\<open>cancelPayment\<close> up to the construction of the instruction.\<close>

definition cancelPayment_instruction ::
  "findProgramAddress \<Rightarrow> 'w Connection \<Rightarrow> deserializer \<Rightarrow> PublicKey \<Rightarrow> 'w \<Rightarrow>
   PublicKey \<Rightarrow> jsstring \<Rightarrow> error + TransactionInstruction" where
  "cancelPayment_instruction fpa conn dec pid w payerKey paymentId =
     (case getPaymentPDA fpa pid payerKey paymentId of
        Inl e \<Rightarrow> Inl e
      | Inr (paymentPDA, bump) \<Rightarrow>
          (case getPayment fpa conn dec pid w payerKey paymentId of
             None \<Rightarrow> Inl PaymentNotFound
           | Some payment \<Rightarrow>
               (if status payment \<noteq> status_value Pending then Inl InvalidStateTransition
                else
                  Inr \<lparr>keys =
                         [\<lparr>pubkey = payerKey, isSigner = True, isWritable = True\<rparr>,
                          \<lparr>pubkey = paymentPDA, isSigner = False, isWritable = True\<rparr>,
                          \<lparr>pubkey = SystemProgram_programId, isSigner = False,
                             isWritable = False\<rparr>],
                       programId = pid,
                       data = [2]\<rparr>)))"

definition cancelPayment ::
  "findProgramAddress \<Rightarrow> 'w Connection \<Rightarrow> deserializer \<Rightarrow> PublicKey \<Rightarrow> 'w \<Rightarrow>
   PublicKey \<Rightarrow> jsstring \<Rightarrow> (error + string) \<times> 'w" where
  "cancelPayment fpa conn dec pid w payerKey paymentId =
     (case cancelPayment_instruction fpa conn dec pid w payerKey paymentId of
        Inl e \<Rightarrow> (Inl e, w)
      | Inr instruction \<Rightarrow> sendAndConfirmTransaction conn w instruction payerKey)"

section \<open>The processor\<close>

text \<open>
  The on-chain program that executes the instructions is not part of the sources: the
  client only builds its instructions. The ledger and the transition \<open>Complete\<close>
  are modelled from sections 4.3, 6 and 9 of the specification.
\<close>

text \<open>
  Modelled from the spec: the store of the hosting ledger, missing from the sources.
  It maps an address to its account, a balance and the bytes stored.
\<close>

type_synonym ledger = "PublicKey \<Rightarrow> AccountInfo option"

text \<open>
  Modelled from the spec: the balance held at an address, missing from the sources;
  an address without an account holds nothing.
\<close>

definition balance :: "ledger \<Rightarrow> PublicKey \<Rightarrow> nat" where
  "balance l a = (case l a of None \<Rightarrow> 0 | Some acc \<Rightarrow> lamports acc)"

text \<open>
  Modelled from the spec: the update of one balance, missing from the sources, used
  by \<open>transfer\<close>.
\<close>

definition set_balance :: "ledger \<Rightarrow> PublicKey \<Rightarrow> nat \<Rightarrow> ledger" where
  "set_balance l a n =
     l(a \<mapsto> (case l a of
                None \<Rightarrow> \<lparr>lamports = n, acct_data = []\<rparr>
              | Some acc \<Rightarrow> acc\<lparr>lamports := n\<rparr>))"

text \<open>
  Modelled from the spec: \<open>put(address, bytes)\<close> of the store, missing from the
  sources.
\<close>

definition put :: "ledger \<Rightarrow> PublicKey \<Rightarrow> u8 list \<Rightarrow> ledger" where
  "put l a bs =
     l(a \<mapsto> (case l a of
                None \<Rightarrow> \<lparr>lamports = 0, acct_data = bs\<rparr>
              | Some acc \<Rightarrow> acc\<lparr>acct_data := bs\<rparr>))"

text \<open>
  Modelled from the spec: the value-transfer primitive
  \<open>transfer(from, to, amount) -> ok | InsufficientFunds\<close>, missing from the sources.
\<close>

definition transfer :: "PublicKey \<Rightarrow> PublicKey \<Rightarrow> nat \<Rightarrow> ledger \<Rightarrow> error + ledger" where
  "transfer src dst n l =
     (if balance l src < n then Inl InsufficientFunds
      else
        (let l' = set_balance l src (balance l src - n)
         in Inr (set_balance l' dst (balance l' dst + n))))"

text \<open>
  Modelled from the spec: the transition \<open>Complete(payer, recipient, payment_id)\<close>
  of the processor, missing from the sources. It checks its preconditions in the
  order the specification lists them (the record exists at the derived address, the
  payer signed, the recipient supplied is the recipient stored, the status is
  Pending, the storage address holds the amount), then moves the amount from the
  storage address to the recipient and sets the status to Completed. Bytes that do
  not decode surface the error of the codec (section 7). A rejected transition
  leaves the ledger as it was. The derivation of the address and the presence of the
  payer's signature are parameters.
\<close>

definition Complete ::
  "(PublicKey \<Rightarrow> string \<Rightarrow> error + PublicKey) \<Rightarrow> bool \<Rightarrow>
   PublicKey \<Rightarrow> PublicKey \<Rightarrow> string \<Rightarrow> ledger \<Rightarrow> (error + unit) \<times> ledger" where
  "Complete derivePaymentAddress payerSigned payerKey recipientKey paymentId l =
     (case derivePaymentAddress payerKey paymentId of
        Inl e \<Rightarrow> (Inl e, l)
      | Inr addr \<Rightarrow>
          (case l addr of
             None \<Rightarrow> (Inl PaymentNotFound, l)
           | Some acc \<Rightarrow>
               (case deserialize PaymentSchema (acct_data acc) of
                  Inl e \<Rightarrow> (Inl e, l)
                | Inr r \<Rightarrow>
                    (if \<not> payerSigned then (Inl Unauthorized, l)
                     else if recipient r \<noteq> recipientKey then (Inl RecipientMismatch, l)
                     else if status r \<noteq> status_value Pending then (Inl InvalidStateTransition, l)
                     else if lamports acc < unat (amount r) then (Inl InsufficientEscrowBalance, l)
                     else
                       (case transfer addr recipientKey (unat (amount r)) l of
                          Inl e \<Rightarrow> (Inl e, l)
                        | Inr l' \<Rightarrow>
                            (case serialize PaymentSchema
                                    (r\<lparr>status := status_value Completed\<rparr>) of
                               None \<Rightarrow> (Inl MalformedAccountError, l)
                             | Some bs \<Rightarrow> (Inr (), put l' addr bs)))))))"

section \<open>Example inputs\<close>

text \<open>
  A chain state that the client can run against: the accounts, and the instructions
  sent so far. Reading never fails; sending appends the instruction.
\<close>

record world =
  accounts :: "PublicKey \<Rightarrow> AccountInfo option"
  sent :: "TransactionInstruction list"

definition example_connection :: "world Connection" where
  "example_connection =
     \<lparr>getAccountInfo = (\<lambda>w a. Inr (accounts w a)),
      sendAndConfirmTransaction = (\<lambda>w ins signer. (Inr ''signature'', w\<lparr>sent := sent w @ [ins]\<rparr>))\<rparr>"

text \<open>A stand-in for the derivation of the library: 32 bytes taken from the seeds.\<close>

definition example_findProgramAddress :: findProgramAddress where
  "example_findProgramAddress seeds pid = Inr (take 32 (concat (rev seeds) @ pid), 255)"

definition example_programId :: PublicKey where
  "example_programId = replicate 32 9"

definition example_payer :: PublicKey where
  "example_payer = replicate 32 1"

definition example_recipient :: PublicKey where
  "example_recipient = replicate 32 2"

definition example_other :: PublicKey where
  "example_other = replicate 32 3"

text \<open>The payment id 'P-1', and one of 33 characters.\<close>

definition example_id :: jsstring where
  "example_id = js ''P-1''"

definition example_long_id :: jsstring where
  "example_long_id = js ''aaaaaaaaaaaaaaaaaaaaaaaaaaaaaaaaa''"

text \<open>
  Two more stand-ins for the derivation: one that gives every seed list the same
  address, and one that rejects a seed of more than 32 bytes, as the library does
  ('Max seed length exceeded').
\<close>

definition collapsing_findProgramAddress :: findProgramAddress where
  "collapsing_findProgramAddress seeds pid = Inr (replicate 32 0, 255)"


text \<open>The address \<open>example_findProgramAddress\<close> derives for the payer and 'P-1'.\<close>

definition example_pda :: PublicKey where
  "example_pda = utf8 ''P-1'' @ replicate 29 1"

definition example_payment :: "u8 \<Rightarrow> Payment" where
  "example_payment s =
     \<lparr>payer = example_payer, recipient = example_recipient, amount = 500000,
      payment_id = ''P-1'', status = s, timestamp = 1700000000\<rparr>"

definition example_account :: "u8 \<Rightarrow> AccountInfo" where
  "example_account s =
     \<lparr>lamports = 500000,
      acct_data = (case serialize PaymentSchema (example_payment s) of
                     None \<Rightarrow> [] | Some bs \<Rightarrow> bs)\<rparr>"

definition example_accounts :: "AccountInfo option \<Rightarrow> PublicKey \<Rightarrow> AccountInfo option" where
  "example_accounts acc = (\<lambda>a. if a = example_pda then acc else None)"

definition example_world :: "AccountInfo option \<Rightarrow> world" where
  "example_world acc = \<lparr>accounts = example_accounts acc, sent = []\<rparr>"

definition example_derive :: "PublicKey \<Rightarrow> string \<Rightarrow> error + PublicKey" where
  "example_derive payerKey paymentId =
     (case getPaymentPDA example_findProgramAddress example_programId payerKey
             (js paymentId) of
        Inl e \<Rightarrow> Inl e
      | Inr (addr, bump) \<Rightarrow> Inr addr)"

section \<open>Facts about the encodings\<close>

lemma length_le_bytes: "length (le_bytes n v) = n"
  by (induction n arbitrary: v) auto

lemma read_le_le_bytes: "v < 256 ^ n \<Longrightarrow> read_le (le_bytes n v) = v"
proof (induction n arbitrary: v)
  case 0
  then show ?case by simp
next
  case (Suc n)
  have "v div 256 < 256 ^ n"
    using Suc.prems by (simp add: less_mult_imp_div_less mult.commute)
  then have "read_le (le_bytes n (v div 256)) = v div 256"
    by (rule Suc.IH)
  moreover have "unat (of_nat (v mod 256) :: u8) = v mod 256"
    by (simp add: unat_of_nat)
  ultimately show ?case by simp
qed

text \<open>Byte \<open>i\<close> of the encoding is digit \<open>i\<close> of the value in base 256.\<close>

lemma le_bytes_nth: "i < n \<Longrightarrow> le_bytes n v ! i = of_nat (v div 256 ^ i mod 256)"
proof (induction n arbitrary: v i)
  case 0
  then show ?case by simp
next
  case (Suc n)
  show ?case
  proof (cases i)
    case 0
    then show ?thesis by simp
  next
    case (Suc j)
    then have "j < n" using Suc.prems by simp
    then show ?thesis
      using Suc.IH [of j "v div 256"] Suc by (simp add: div_mult2_eq)
  qed
qed

text \<open>Unfolding the encoder at a numeral length, for evaluation.\<close>

lemma le_bytes_numeral:
  "le_bytes (numeral k) v = of_nat (v mod 256) # le_bytes (pred_numeral k) (v div 256)"
proof -
  have "le_bytes (Suc (pred_numeral k)) v =
          of_nat (v mod 256) # le_bytes (pred_numeral k) (v div 256)"
    by (rule le_bytes.simps)
  then show ?thesis
    by (simp only: numeral_eq_Suc [symmetric])
qed

lemma le_bytes_example_amount: "le_bytes 8 500000 = [32, 161, 7, 0, 0, 0, 0, 0]"
  by (simp add: le_bytes_numeral)

lemma le_bytes_example_length: "le_bytes 4 3 = [3, 0, 0, 0]"
  by (simp add: le_bytes_numeral)

lemma le_bytes_example_timestamp: "le_bytes 8 1700000000 = [0, 241, 83, 101, 0, 0, 0, 0]"
  by (simp add: le_bytes_numeral)

lemma utf8_example_id: "utf8 ''P-1'' = [80, 45, 49]"
  by (simp add: utf8_def)

subsection \<open>The UTF-8 bytes of a JavaScript string\<close>

text \<open>
  The bytes of a code point determine it, and no encoding is the beginning of
  another, so the encoding of a list of code points determines the list.
\<close>

lemma div_mod_eqD: "(a :: nat) div n = b div n \<Longrightarrow> a mod n = b mod n \<Longrightarrow> a = b"
  by (metis div_mult_mod_eq)

lemma digits3:
  assumes "(c :: nat) div 0x1000 = d div 0x1000" "c div 0x40 mod 0x40 = d div 0x40 mod 0x40"
    "c mod 0x40 = d mod 0x40"
  shows "c = d"
proof -
  have "c div 0x40 div 0x40 = d div 0x40 div 0x40"
    using assms(1) by (simp add: div_mult2_eq [symmetric])
  then have "c div 0x40 = d div 0x40"
    using assms(2) by (rule div_mod_eqD)
  then show ?thesis
    using assms(3) by (rule div_mod_eqD)
qed

lemma digits4:
  assumes "(c :: nat) div 0x40000 = d div 0x40000" "c div 0x1000 mod 0x40 = d div 0x1000 mod 0x40"
    "c div 0x40 mod 0x40 = d div 0x40 mod 0x40" "c mod 0x40 = d mod 0x40"
  shows "c = d"
proof -
  have "c div 0x1000 div 0x40 = d div 0x1000 div 0x40"
    using assms(1) by (simp add: div_mult2_eq [symmetric])
  then have "c div 0x1000 = d div 0x1000"
    using assms(2) by (rule div_mod_eqD)
  then show ?thesis
    using assms(3,4) by (rule digits3)
qed

lemma utf8_bytes_prefix:
  assumes "utf8_bytes c @ r = utf8_bytes d @ r'"
  shows "c = d \<and> r = r'"
  using assms
  by (auto simp: utf8_bytes_def split: if_splits intro: div_mod_eqD digits3 digits4)

lemma utf8_bytes_concat_inj:
  "concat (map utf8_bytes cs) = concat (map utf8_bytes ds) \<Longrightarrow> cs = ds"
proof (induction cs arbitrary: ds)
  case Nil
  then show ?case by (cases ds) (auto simp: utf8_bytes_def split: if_splits)
next
  case (Cons c cs)
  show ?case
  proof (cases ds)
    case Nil
    with Cons.prems show ?thesis by (auto simp: utf8_bytes_def split: if_splits)
  next
    case (Cons d ds')
    with Cons.prems have "utf8_bytes c @ concat (map utf8_bytes cs) =
        utf8_bytes d @ concat (map utf8_bytes ds')" by simp
    then have "c = d" "concat (map utf8_bytes cs) = concat (map utf8_bytes ds')"
      using utf8_bytes_prefix by blast+
    then show ?thesis using Cons Cons.IH by simp
  qed
qed

lemma utf8_bytes_lt: "c < 0x110000 \<Longrightarrow> \<forall>b \<in> set (utf8_bytes c). b < 256"
  by (auto simp: utf8_bytes_def)

lemma code_points_lt: "\<forall>c \<in> set (code_points s). c < 0x110000"
proof (induction s rule: code_points.induct)
  case 1
  then show ?case by simp
next
  case (2 u)
  have "unat u < 2 ^ 16" using unsigned_less [of u, where ?'a = nat] by simp
  then show ?case by simp
next
  case (3 u v us)
  have "unat u < 2 ^ 16" using unsigned_less [of u, where ?'a = nat] by simp
  then show ?case using 3 by (auto simp: is_high_def is_low_def)
qed

lemma map_of_nat_inj:
  assumes "\<forall>b \<in> set xs. b < 256" "\<forall>b \<in> set ys. b < 256"
    "map of_nat xs = (map of_nat ys :: u8 list)"
  shows "xs = ys"
proof -
  have "map unat (map of_nat xs :: u8 list) = xs" if "\<forall>b \<in> set xs. b < 256" for xs :: "nat list"
    using that by (induction xs) (auto simp: unat_of_nat)
  then show ?thesis using assms by metis
qed

lemma unat_u16_lt: "unat (u :: u16) < 65536"
  using unsigned_less [of u, where ?'a = nat] by simp

lemma code_points_eq_Nil: "code_points s = [] \<longleftrightarrow> s = []"
  by (cases s rule: code_points.cases) auto

lemma code_points_pair:
  "is_high u \<Longrightarrow> is_low v \<Longrightarrow>
     code_points (u # v # us) =
       (0x10000 + (unat u - 0xD800) * 0x400 + (unat v - 0xDC00)) # code_points us"
  by simp

lemma code_points_single:
  "\<not> is_high u \<Longrightarrow> \<not> is_low u \<Longrightarrow> code_points (u # us) = unat u # code_points us"
  by (cases us) simp_all

lemma pair_inj:
  assumes "is_high u" "is_low v" "is_high u'" "is_low v'"
    and e: "0x10000 + (unat u - 0xD800) * 0x400 + (unat v - 0xDC00) =
         0x10000 + (unat u' - 0xD800) * 0x400 + (unat v' - 0xDC00)"
  shows "u = u' \<and> v = v'"
proof -
  define a b a' b' where "a = unat u - 0xD800" and "b = unat v - 0xDC00"
    and "a' = unat u' - 0xD800" and "b' = unat v' - 0xDC00"
  have bb: "b < 0x400" "b' < 0x400"
    using assms(2,4) unfolding is_low_def b_def b'_def by arith+
  have "a * 0x400 + b = a' * 0x400 + b'"
    using e by (simp add: a_def b_def a'_def b'_def)
  then have "(a * 0x400 + b) div 0x400 = (a' * 0x400 + b') div 0x400"
    and "(a * 0x400 + b) mod 0x400 = (a' * 0x400 + b') mod 0x400"
    by simp_all
  then have "a = a'" "b = b'"
    using bb by simp_all
  then have "unat u = unat u'" "unat v = unat v'"
    using assms(1-4) unfolding is_high_def is_low_def a_def b_def a'_def b'_def by arith+
  then show ?thesis
    by (simp add: word_unat_eq_iff)
qed

lemma pair_not_single:
  "0x10000 + (unat u - 0xD800) * 0x400 + (unat v - 0xDC00) \<noteq> unat (w :: u16)"
proof -
  have "unat w < 0x10000" by (rule unat_u16_lt)
  then show ?thesis by simp
qed

text \<open>The first code point of a well-formed, non-empty string, and the rest.\<close>

lemma well_formed_cases:
  assumes "well_formed s" "s \<noteq> []"
  obtains (pair) u v us where "s = u # v # us" "is_high u" "is_low v" "well_formed us"
  | (single) u us where "s = u # us" "\<not> is_high u" "\<not> is_low u" "well_formed us"
  using assms by (cases s rule: well_formed.cases) (auto split: if_splits)

lemma code_points_inj:
  "well_formed s \<Longrightarrow> well_formed t \<Longrightarrow> code_points s = code_points t \<Longrightarrow> s = t"
proof (induction "length s" arbitrary: s t rule: less_induct)
  case less
  show ?case
  proof (cases "s = []")
    case True
    then show ?thesis using less.prems(3) code_points_eq_Nil [of t] by simp
  next
    case False
    then have tne: "t \<noteq> []"
      using less.prems(3) code_points_eq_Nil [of s] by auto
    from less.prems(1) False show ?thesis
    proof (cases rule: well_formed_cases)
      case (pair u v us)
      from less.prems(2) tne show ?thesis
      proof (cases rule: well_formed_cases)
        case (pair u' v' us')
        note p' = this
        have e: "0x10000 + (unat u - 0xD800) * 0x400 + (unat v - 0xDC00) =
                 0x10000 + (unat u' - 0xD800) * 0x400 + (unat v' - 0xDC00)"
          and r: "code_points us = code_points us'"
          using less.prems(3)
          by (simp_all add: \<open>s = u # v # us\<close> p'(1)
                code_points_pair [OF \<open>is_high u\<close> \<open>is_low v\<close>]
                code_points_pair [OF p'(2,3)] del: code_points.simps)
        have "u = u' \<and> v = v'"
          using \<open>is_high u\<close> \<open>is_low v\<close> p'(2,3) e by (rule pair_inj)
        moreover have "us = us'"
          using less.hyps [of us us'] \<open>s = u # v # us\<close> \<open>well_formed us\<close> p'(4) r by simp
        ultimately show ?thesis
          using \<open>s = u # v # us\<close> p'(1) by simp
      next
        case (single u' us')
        have "0x10000 + (unat u - 0xD800) * 0x400 + (unat v - 0xDC00) = unat u'"
          using less.prems(3)
          by (simp add: \<open>s = u # v # us\<close> single(1)
                code_points_pair [OF \<open>is_high u\<close> \<open>is_low v\<close>]
                code_points_single [OF single(2,3)] del: code_points.simps)
        then show ?thesis
          using pair_not_single [of u v u'] by simp
      qed
    next
      case (single u us)
      from less.prems(2) tne show ?thesis
      proof (cases rule: well_formed_cases)
        case (pair u' v' us')
        have "unat u = 0x10000 + (unat u' - 0xD800) * 0x400 + (unat v' - 0xDC00)"
          using less.prems(3)
          by (simp add: \<open>s = u # us\<close> pair(1)
                code_points_pair [OF pair(2,3)]
                code_points_single [OF \<open>\<not> is_high u\<close> \<open>\<not> is_low u\<close>]
                del: code_points.simps)
        then show ?thesis
          using pair_not_single [of u' v' u] by simp
      next
        case (single u' us')
        note s' = this
        have e: "unat u = unat u'" and r: "code_points us = code_points us'"
          using less.prems(3)
          by (simp_all add: \<open>s = u # us\<close> s'(1)
                code_points_single [OF \<open>\<not> is_high u\<close> \<open>\<not> is_low u\<close>]
                code_points_single [OF s'(2,3)] del: code_points.simps)
        have "u = u'" using e by (simp add: word_unat_eq_iff)
        moreover have "us = us'"
          using less.hyps [of us us'] \<open>s = u # us\<close> \<open>well_formed us\<close> s'(4) r by simp
        ultimately show ?thesis
          using \<open>s = u # us\<close> s'(1) by simp
      qed
    qed
  qed
qed

lemma Buffer_from_inj:
  assumes "well_formed s" "well_formed t" "Buffer_from s = Buffer_from t"
  shows "s = t"
proof -
  have b: "\<forall>b \<in> set (concat (map utf8_bytes (code_points r))). b < 256" for r
    using code_points_lt [of r] utf8_bytes_lt by auto
  have "concat (map utf8_bytes (code_points s)) = concat (map utf8_bytes (code_points t))"
    using assms(3) b [of s] b [of t] unfolding Buffer_from_def by (rule map_of_nat_inj [rotated 2])
  then have "code_points s = code_points t"
    by (rule utf8_bytes_concat_inj)
  with assms(1,2) show ?thesis
    by (rule code_points_inj)
qed

text \<open>A lone surrogate, high or low, becomes the three bytes of \<open>U+FFFD\<close>.\<close>

lemma Buffer_from_lone_surrogate:
  "Buffer_from [0xD800] = [0xEF, 0xBF, 0xBD]" "Buffer_from [0xDFFF] = [0xEF, 0xBF, 0xBD]"
  by (simp_all add: Buffer_from_def is_high_def is_low_def utf8_bytes_def)

text \<open>A string of characters below 128 is encoded unit by unit.\<close>

lemma Buffer_from_ascii:
  "\<forall>u \<in> set s. unat u < 0x80 \<Longrightarrow> Buffer_from s = map (\<lambda>u. of_nat (unat u)) s"
proof (induction s rule: code_points.induct)
  case 1
  then show ?case by (simp add: Buffer_from_def)
next
  case (2 u)
  then show ?case by (simp add: Buffer_from_def is_high_def is_low_def utf8_bytes_def)
next
  case (3 u v us)
  then show ?case by (simp add: Buffer_from_def is_high_def is_low_def utf8_bytes_def)
qed

lemma well_formed_ascii: "\<forall>u \<in> set s. unat u < 0x80 \<Longrightarrow> well_formed s"
  by (induction s rule: well_formed.induct) (simp_all add: is_high_def is_low_def)

lemma js_ascii:
  "\<forall>c \<in> set s. (of_char c :: nat) < 0x80 \<Longrightarrow> \<forall>u \<in> set (js s). unat u < 0x80"
  by (auto simp: js_def unat_of_nat)

lemma example_id_ascii: "\<forall>u \<in> set example_id. unat u < 0x80"
  unfolding example_id_def by (rule js_ascii) simp

lemma example_long_id_ascii: "\<forall>u \<in> set example_long_id. unat u < 0x80"
  unfolding example_long_id_def by (rule js_ascii) simp

lemma example_id_nonempty: "example_id \<noteq> []"
  by (simp add: example_id_def js_def)

lemma Buffer_from_example_id: "Buffer_from example_id = [80, 45, 49]"
  by (simp add: example_id_def js_def Buffer_from_ascii)


lemma example_ids_differ: "example_id \<noteq> example_long_id"
proof
  assume "example_id = example_long_id"
  then have "length example_id = length example_long_id"
    by simp
  then show False
    by (simp add: example_id_def example_long_id_def js_def)
qed

subsection \<open>The text of a stored record\<close>

lemma length_utf8: "length (utf8 s) = length s"
  by (simp add: utf8_def)

lemma from_utf8_utf8: "from_utf8 (utf8 s) = s"
proof -
  have "char_of (unat (of_nat (of_char c) :: u8)) = c" for c :: char
  proof -
    have "unat (of_nat (of_char c) :: u8) = (of_char c :: nat) mod 256"
      by (simp add: unat_of_nat)
    then show ?thesis by simp
  qed
  then show ?thesis by (simp add: utf8_def from_utf8_def map_idI)
qed

text \<open>The unsigned reading of a 64-bit word is its signed reading modulo \<open>2 ^ 64\<close>.\<close>

lemma unat_sint64: "unat (w :: 64 word) = nat (sint w mod 2 ^ 64)"
proof -
  have "uint w = sint w mod 2 ^ 64"
    by (simp add: uint_sint take_bit_eq_mod)
  then show ?thesis by (simp add: unat_eq_nat_uint)
qed

lemma read_le_word64: "of_nat (read_le (le_bytes 8 (unat (w :: 64 word)))) = w"
proof -
  have "unat w < 2 ^ 64"
    using unsigned_less [of w, where ?'a = nat] by simp
  then have "unat w < 256 ^ 8" by simp
  then show ?thesis by (simp add: read_le_le_bytes)
qed

subsection \<open>Decoding what was encoded, field by field\<close>

lemma decode_fixed:
  "length xs = n \<Longrightarrow> decode_field (FixedArray n) (xs @ rest) = Some (Bytes xs, rest)"
  by simp

lemma decode_u8: "decode_field U8 (b # rest) = Some (Num8 b, rest)"
  by simp

lemma decode_u64: "decode_field U64 (le_bytes 8 (unat w) @ rest) = Some (Num64 w, rest)"
  by (simp add: length_le_bytes read_le_word64)

lemma decode_i64: "decode_field I64 (le_bytes 8 (unat w) @ rest) = Some (Num64 w, rest)"
  by (simp add: length_le_bytes read_le_word64)

lemma decode_string:
  assumes "length s < 2 ^ 32"
  shows "decode_field BorshString (le_bytes 4 (length (utf8 s)) @ utf8 s @ rest) = Some (Str s, rest)"
proof -
  from assms have "length (utf8 s) < 256 ^ 4"
    by (simp add: length_utf8)
  then have "read_le (le_bytes 4 (length (utf8 s))) = length (utf8 s)"
    by (rule read_le_le_bytes)
  then show ?thesis
    by (simp add: length_le_bytes Let_def from_utf8_utf8)
qed

lemma serialize_Payment:
  assumes "valid_Payment p"
  shows "serialize PaymentSchema p =
           Some (payer p @ recipient p @ le_bytes 8 (unat (amount p)) @
                 le_bytes 4 (length (utf8 (payment_id p))) @ utf8 (payment_id p) @
                 [status p] @ le_bytes 8 (unat (timestamp p)))"
  using assms
  by (simp add: serialize_def PaymentSchema_def Payment_fields_def valid_Payment_def length_utf8)

lemma deserialize_serialize:
  assumes "valid_Payment p"
  shows "deserialize PaymentSchema
           (payer p @ recipient p @ le_bytes 8 (unat (amount p)) @
            le_bytes 4 (length (utf8 (payment_id p))) @ utf8 (payment_id p) @
            [status p] @ le_bytes 8 (unat (timestamp p))) = Inr p"
proof -
  have l: "length (payer p) = 32" "length (recipient p) = 32" "length (payment_id p) < 2 ^ 32"
    using assms by (simp_all add: valid_Payment_def)
  have "deserialize_fields PaymentSchema
           (payer p @ recipient p @ le_bytes 8 (unat (amount p)) @
            le_bytes 4 (length (utf8 (payment_id p))) @ utf8 (payment_id p) @
            [status p] @ le_bytes 8 (unat (timestamp p))) =
        Some ([(''payer'', Bytes (payer p)), (''recipient'', Bytes (recipient p)),
               (''amount'', Num64 (amount p)), (''payment_id'', Str (payment_id p)),
               (''status'', Num8 (status p)), (''timestamp'', Num64 (timestamp p))], [])"
    unfolding PaymentSchema_def deserialize_fields.simps
    using decode_i64 [of "timestamp p" "[]"]
    by (simp only: decode_fixed [OF l(1)] decode_fixed [OF l(2)] decode_u64
          decode_string [OF l(3)] decode_u8 option.case prod.case append_Cons append_Nil
          append_Nil2)
  then show ?thesis
    by (simp add: deserialize_def new_Payment_def)
qed

subsection \<open>What the argument encoders of the client return\<close>

lemma serializeU64_Inr:
  "serializeU64 v = Inr bs \<Longrightarrow>
     \<exists>a. v = Num (of_int a) \<and> 0 \<le> a \<and> a < 2 ^ 64 \<and> bs = le_bytes 8 (nat a)"
  by (cases v) (auto simp: serializeU64_def writeBigUInt64LE_def split: if_splits intro: sym)

lemma serializeString_Inr:
  "serializeString s = Inr bs \<Longrightarrow>
     length (Buffer_from s) < 2 ^ 32 \<and>
     bs = le_bytes 4 (length (Buffer_from s)) @ Buffer_from s"
  by (auto simp: serializeString_def writeUInt32LE_def Let_def split: if_splits)

subsection \<open>The example inputs\<close>

lemma example_getPaymentPDA:
  "getPaymentPDA example_findProgramAddress example_programId example_payer example_id =
     Inr (example_pda, 255)"
  by (simp add: getPaymentPDA_def example_findProgramAddress_def example_payer_def
        example_pda_def utf8_example_id Buffer_from_example_id)

lemma valid_example_payment:
  "s \<in> {status_value Pending, status_value Completed, status_value Cancelled} \<Longrightarrow>
     valid_Payment (example_payment s)"
  by (auto simp: valid_Payment_def example_payment_def example_payer_def example_recipient_def)

lemma deserialize_example_account:
  assumes "s \<in> {status_value Pending, status_value Completed, status_value Cancelled}"
  shows "deserialize PaymentSchema (acct_data (example_account s)) = Inr (example_payment s)"
proof -
  have v: "valid_Payment (example_payment s)"
    using assms by (rule valid_example_payment)
  show ?thesis
    unfolding example_account_def
    using deserialize_serialize [OF v]
    by (simp add: serialize_Payment [OF v])
qed

lemma getAccountInfo_example:
  "getAccountInfo example_connection (example_world acc) example_pda = Inr acc"
  by (simp add: example_connection_def example_world_def example_accounts_def)

lemma getPayment_example_none:
  "getPayment example_findProgramAddress example_connection deserialize example_programId
     (example_world None) example_payer example_id = None"
  by (simp add: getPayment_def getPayment_try_def example_getPaymentPDA getAccountInfo_example)

lemma getPayment_example_account:
  assumes "s \<in> {status_value Pending, status_value Completed, status_value Cancelled}"
  shows "getPayment example_findProgramAddress example_connection deserialize example_programId
           (example_world (Some (example_account s))) example_payer example_id =
         Some (example_payment s)"
  by (simp add: getPayment_def getPayment_try_def example_getPaymentPDA getAccountInfo_example
        deserialize_example_account [OF assms])

lemma example_derive_pda: "example_derive example_payer ''P-1'' = Inr example_pda"
  by (simp add: example_derive_def example_getPaymentPDA [unfolded example_id_def])

lemma example_other_recipient: "example_other \<noteq> recipient (example_payment s)"
  by (simp add: example_other_def example_payment_def example_recipient_def)

text \<open>
  The client does not compare the recipient it is given with the recipient stored in
  the record: for a Pending record it builds the Complete instruction with the
  recipient of the caller in third position.
\<close>

lemma completePayment_example_other_recipient:
  "\<exists>ins. completePayment_instruction example_findProgramAddress example_connection deserialize
           example_programId (example_world (Some (example_account 0))) example_payer
           example_other example_id = Inr ins \<and>
         map pubkey (keys ins) =
           [example_payer, example_pda, example_other, SystemProgram_programId]"
proof -
  have "getPayment example_findProgramAddress example_connection deserialize example_programId
          (example_world (Some (example_account 0))) example_payer example_id =
        Some (example_payment 0)"
    by (rule getPayment_example_account) simp
  then show ?thesis
    by (simp add: completePayment_instruction_def example_getPaymentPDA example_payment_def)
qed

text \<open>
  With the recipient stored in the record, \<open>Complete\<close> succeeds on the example
  ledger: the amount moves from the storage address to the recipient and the record
  becomes Completed.
\<close>

lemma Complete_example_success:
  "\<exists>l'. Complete example_derive True example_payer example_recipient ''P-1''
           (example_accounts (Some (example_account 0))) = (Inr (), l') \<and>
         balance l' example_recipient = 500000 \<and> balance l' example_pda = 0 \<and>
         (\<exists>acc. l' example_pda = Some acc \<and>
                deserialize PaymentSchema (acct_data acc) = Inr (example_payment 1))"
proof -
  have d: "deserialize PaymentSchema (acct_data (example_account 0)) = Inr (example_payment 0)"
    by (rule deserialize_example_account) simp
  have v: "valid_Payment (example_payment 1)"
    by (rule valid_example_payment) simp
  obtain bs where s: "serialize PaymentSchema (example_payment 1) = Some bs"
    and dd: "deserialize PaymentSchema bs = Inr (example_payment 1)"
    using serialize_Payment [OF v] deserialize_serialize [OF v] by simp
  have u: "example_payment 0\<lparr>status := 1\<rparr> = example_payment 1"
    by (simp add: example_payment_def)
  have ne: "example_pda \<noteq> example_recipient"
    by (simp add: example_pda_def example_recipient_def utf8_example_id numeral_eq_Suc)
  have f: "recipient (example_payment 0) = example_recipient" "status (example_payment 0) = 0"
    "unat (amount (example_payment 0)) = 500000" "lamports (example_account 0) = 500000"
    by (simp_all add: example_payment_def example_account_def)
  show ?thesis
    using ne
    by (simp add: Complete_def example_derive_pda example_accounts_def d f u s dd
          transfer_def balance_def set_balance_def put_def Let_def)
qed

text \<open>
  The seeds of two distinct pairs with well-formed payment ids differ.
\<close>

lemma payment_seeds_distinct:
  assumes "well_formed paymentId" "well_formed paymentId'"
    and "(payerKey, paymentId) \<noteq> (payerKey', paymentId')"
  shows "[Buffer_from (js ''payment''), payerKey, Buffer_from paymentId] \<noteq>
         [Buffer_from (js ''payment''), payerKey', Buffer_from paymentId']"
proof
  assume "[Buffer_from (js ''payment''), payerKey, Buffer_from paymentId] =
          [Buffer_from (js ''payment''), payerKey', Buffer_from paymentId']"
  then have p: "payerKey = payerKey'" and b: "Buffer_from paymentId = Buffer_from paymentId'"
    by (simp_all only: list.inject)
  have "paymentId = paymentId'"
    using assms(1,2) b by (rule Buffer_from_inj)
  with p assms(3) show False
    by (simp only: prod.inject simp_thms)
qed

section \<open>The claims\<close>

subsection \<open>C1: a Complete that names another recipient\<close>

text \<open>
  C1. For every payment record whose stored recipient is R, a Complete invoked (with
  the payer's signature) with a recipient argument different from R fails with
  \<open>RecipientMismatch\<close> before any transfer: the ledger returned is the ledger given,
  so no balance changes and the record, with its status, is the one stored before;
  a Pending record stays Pending.
\<close>

theorem Complete_recipient_mismatch:
  assumes "derivePaymentAddress payerKey paymentId = Inr addr"
    and "l addr = Some acc"
    and "deserialize PaymentSchema (acct_data acc) = Inr r"
    and "recipientKey \<noteq> recipient r"
  shows "Complete derivePaymentAddress True payerKey recipientKey paymentId l =
           (Inl RecipientMismatch, l) \<and>
         (\<forall>a. balance (snd (Complete derivePaymentAddress True payerKey recipientKey paymentId l)) a =
                balance l a) \<and>
         snd (Complete derivePaymentAddress True payerKey recipientKey paymentId l) addr = Some acc"
proof -
  have "Complete derivePaymentAddress True payerKey recipientKey paymentId l =
          (Inl RecipientMismatch, l)"
    using assms by (auto simp: Complete_def)
  then show ?thesis
    using assms(2) by simp
qed

theorem Complete_recipient_mismatch_witness:
  "example_derive example_payer ''P-1'' = Inr example_pda \<and>
   example_accounts (Some (example_account 0)) example_pda = Some (example_account 0) \<and>
   deserialize PaymentSchema (acct_data (example_account 0)) = Inr (example_payment 0) \<and>
   status (example_payment 0) = status_value Pending \<and>
   example_other \<noteq> recipient (example_payment 0) \<and>
   Complete example_derive True example_payer example_other ''P-1''
     (example_accounts (Some (example_account 0))) =
     (Inl RecipientMismatch, example_accounts (Some (example_account 0)))"
proof -
  have a: "example_accounts (Some (example_account 0)) example_pda = Some (example_account 0)"
    by (simp add: example_accounts_def)
  have d: "deserialize PaymentSchema (acct_data (example_account 0)) = Inr (example_payment 0)"
    by (rule deserialize_example_account) simp
  have s: "status (example_payment 0) = status_value Pending"
    by (simp add: example_payment_def)
  show ?thesis
    using Complete_recipient_mismatch
            [where derivePaymentAddress = example_derive and payerKey = example_payer
               and paymentId = "''P-1''" and addr = example_pda
               and l = "example_accounts (Some (example_account 0))"
               and acc = "example_account 0" and r = "example_payment 0"
               and recipientKey = example_other]
          example_derive_pda a d s example_other_recipient [of 0]
    by simp
qed

subsection \<open>C2: the derived address\<close>

text \<open>
  C2, as amended. \<open>getPaymentPDA\<close> is a function of the payer, the UTF-8 bytes of
  the payment id and the program id alone: two calls with the same payer, payment ids
  of the same bytes and the same program id return the same result, and no chain
  state is read. Distinct (payer, payment id) pairs whose payment ids are well formed
  (no surrogate outside a pair) are derived from distinct seed lists, so two such
  pairs are given one address only where the derivation of the library gives that
  address to two distinct seed lists.
\<close>

theorem getPaymentPDA_pure_seeds_distinct:
  "(payerKey = payerKey' \<and> Buffer_from paymentId = Buffer_from paymentId' \<longrightarrow>
      getPaymentPDA fpa pid payerKey paymentId = getPaymentPDA fpa pid payerKey' paymentId') \<and>
   (well_formed paymentId \<and> well_formed paymentId' \<and>
    (payerKey, paymentId) \<noteq> (payerKey', paymentId') \<longrightarrow>
      [Buffer_from (js ''payment''), payerKey, Buffer_from paymentId] \<noteq>
      [Buffer_from (js ''payment''), payerKey', Buffer_from paymentId']) \<and>
   (well_formed paymentId \<and> well_formed paymentId' \<and>
    (payerKey, paymentId) \<noteq> (payerKey', paymentId') \<and>
    getPaymentPDA fpa pid payerKey paymentId = Inr (a, b) \<and>
    getPaymentPDA fpa pid payerKey' paymentId' = Inr (a, b') \<longrightarrow>
      (\<exists>seeds seeds'. seeds \<noteq> seeds' \<and> fpa seeds pid = Inr (a, b) \<and>
                      fpa seeds' pid = Inr (a, b')))"
proof (intro conjI impI)
  assume "payerKey = payerKey' \<and> Buffer_from paymentId = Buffer_from paymentId'"
  then show "getPaymentPDA fpa pid payerKey paymentId = getPaymentPDA fpa pid payerKey' paymentId'"
    by (simp only: getPaymentPDA_def)
next
  assume "well_formed paymentId \<and> well_formed paymentId' \<and>
    (payerKey, paymentId) \<noteq> (payerKey', paymentId')"
  then have "well_formed paymentId" "well_formed paymentId'"
    "(payerKey, paymentId) \<noteq> (payerKey', paymentId')"
    by (rule conjunct1, rule conjunct2 [THEN conjunct1], rule conjunct2 [THEN conjunct2])
  then show "[Buffer_from (js ''payment''), payerKey, Buffer_from paymentId] \<noteq>
      [Buffer_from (js ''payment''), payerKey', Buffer_from paymentId']"
    by (rule payment_seeds_distinct)
next
  assume h: "well_formed paymentId \<and> well_formed paymentId' \<and>
    (payerKey, paymentId) \<noteq> (payerKey', paymentId') \<and>
    getPaymentPDA fpa pid payerKey paymentId = Inr (a, b) \<and>
    getPaymentPDA fpa pid payerKey' paymentId' = Inr (a, b')"
  then have w: "well_formed paymentId" "well_formed paymentId'"
    "(payerKey, paymentId) \<noteq> (payerKey', paymentId')"
    and g: "getPaymentPDA fpa pid payerKey paymentId = Inr (a, b)"
    "getPaymentPDA fpa pid payerKey' paymentId' = Inr (a, b')"
    by (rule conjunct1, rule conjunct2 [THEN conjunct1],
        rule conjunct2 [THEN conjunct2, THEN conjunct1],
        rule conjunct2 [THEN conjunct2, THEN conjunct2, THEN conjunct1],
        rule conjunct2 [THEN conjunct2, THEN conjunct2, THEN conjunct2])
  have d: "[Buffer_from (js ''payment''), payerKey, Buffer_from paymentId] \<noteq>
      [Buffer_from (js ''payment''), payerKey', Buffer_from paymentId']"
    using w by (rule payment_seeds_distinct)
  have f: "fpa [Buffer_from (js ''payment''), payerKey, Buffer_from paymentId] pid = Inr (a, b)"
    "fpa [Buffer_from (js ''payment''), payerKey', Buffer_from paymentId'] pid = Inr (a, b')"
    using g by (simp_all only: getPaymentPDA_def)
  show "\<exists>seeds seeds'. seeds \<noteq> seeds' \<and> fpa seeds pid = Inr (a, b) \<and>
                      fpa seeds' pid = Inr (a, b')"
    using d f by (intro exI conjI)
qed

text \<open>
  The witness: two ids of the same bytes, two well-formed ids, and a derivation that
  gives every seed list the same address.
\<close>

theorem getPaymentPDA_pure_seeds_distinct_witness:
  "Buffer_from [0xD800] = Buffer_from [0xDFFF] \<and>
   getPaymentPDA example_findProgramAddress example_programId example_payer [0xD800] =
     getPaymentPDA example_findProgramAddress example_programId example_payer [0xDFFF] \<and>
   well_formed example_id \<and> well_formed example_long_id \<and>
   (example_payer, example_id) \<noteq> (example_payer, example_long_id) \<and>
   [Buffer_from (js ''payment''), example_payer, Buffer_from example_id] \<noteq>
     [Buffer_from (js ''payment''), example_payer, Buffer_from example_long_id] \<and>
   getPaymentPDA collapsing_findProgramAddress example_programId example_payer example_id =
     Inr (replicate 32 0, 255) \<and>
   getPaymentPDA collapsing_findProgramAddress example_programId example_payer
     example_long_id = Inr (replicate 32 0, 255) \<and>
   (\<exists>seeds seeds'. seeds \<noteq> seeds' \<and>
      collapsing_findProgramAddress seeds example_programId = Inr (replicate 32 0, 255) \<and>
      collapsing_findProgramAddress seeds' example_programId = Inr (replicate 32 0, 255))"
proof -
  have e: "Buffer_from [0xD800] = Buffer_from [0xDFFF]"
    by (simp add: Buffer_from_lone_surrogate)
  have w: "well_formed example_id" "well_formed example_long_id"
    using example_id_ascii example_long_id_ascii by (simp_all add: well_formed_ascii)
  have n: "(example_payer, example_id) \<noteq> (example_payer, example_long_id)"
    using example_ids_differ by simp
  have g: "getPaymentPDA collapsing_findProgramAddress example_programId example_payer
     example_id = Inr (replicate 32 0, 255)"
    "getPaymentPDA collapsing_findProgramAddress example_programId example_payer
     example_long_id = Inr (replicate 32 0, 255)"
    by (simp_all add: getPaymentPDA_def collapsing_findProgramAddress_def)
  note t1 = getPaymentPDA_pure_seeds_distinct
      [where payerKey = example_payer and payerKey' = example_payer
         and paymentId = "[0xD800]" and paymentId' = "[0xDFFF]"
         and fpa = example_findProgramAddress and pid = example_programId]
  note t2 = getPaymentPDA_pure_seeds_distinct
      [where payerKey = example_payer and payerKey' = example_payer
         and paymentId = example_id and paymentId' = example_long_id
         and fpa = collapsing_findProgramAddress and pid = example_programId
         and a = "replicate 32 0" and b = 255 and b' = 255]
  have c1: "getPaymentPDA example_findProgramAddress example_programId example_payer [0xD800] =
     getPaymentPDA example_findProgramAddress example_programId example_payer [0xDFFF]"
    using t1 e by blast
  have c2: "[Buffer_from (js ''payment''), example_payer, Buffer_from example_id] \<noteq>
     [Buffer_from (js ''payment''), example_payer, Buffer_from example_long_id]"
    using t2 w n by blast
  have c3: "\<exists>seeds seeds'. seeds \<noteq> seeds' \<and>
      collapsing_findProgramAddress seeds example_programId = Inr (replicate 32 0, 255) \<and>
      collapsing_findProgramAddress seeds' example_programId = Inr (replicate 32 0, 255)"
    using t2 w n g by blast
  show ?thesis
    using e c1 w n c2 g c3 by (intro conjI)
qed

text \<open>
  C2 as stated fails on two payment ids that are each one lone surrogate, the high
  \<open>0xD800\<close> and the low \<open>0xDFFF\<close>: the strings differ, both are encoded as the bytes
  EF BF BD of \<open>U+FFFD\<close>, so the seeds and the derived address are the same.
\<close>

theorem getPaymentPDA_lone_surrogates_collide:
  "(example_payer, [0xD800 :: u16]) \<noteq> (example_payer, [0xDFFF]) \<and>
   Buffer_from [0xD800] = [0xEF, 0xBF, 0xBD] \<and>
   Buffer_from [0xDFFF] = [0xEF, 0xBF, 0xBD] \<and>
   getPaymentPDA example_findProgramAddress example_programId example_payer [0xD800] =
     Inr ([0xEF, 0xBF, 0xBD] @ replicate 29 1, 255) \<and>
   getPaymentPDA example_findProgramAddress example_programId example_payer [0xDFFF] =
     Inr ([0xEF, 0xBF, 0xBD] @ replicate 29 1, 255)"
  by (simp add: getPaymentPDA_def example_findProgramAddress_def example_payer_def
        Buffer_from_lone_surrogate)

subsection \<open>C3: decoding an encoded record\<close>

text \<open>
  C3. For every valid Payment record (32-byte payer and recipient, 64-bit amount and
  timestamp, payment id of at least one byte, status Pending, Completed or Cancelled),
  the record has an encoding under the Payment schema, and decoding that encoding
  returns the record.
\<close>

theorem Payment_roundtrip:
  assumes "valid_Payment p"
  shows "\<exists>bs. serialize PaymentSchema p = Some bs \<and> deserialize PaymentSchema bs = Inr p"
  using serialize_Payment [OF assms] deserialize_serialize [OF assms] by simp

theorem Payment_roundtrip_witness:
  "valid_Payment (example_payment 0) \<and>
   (\<exists>bs. serialize PaymentSchema (example_payment 0) = Some bs \<and>
         deserialize PaymentSchema bs = Inr (example_payment 0))"
proof -
  have v: "valid_Payment (example_payment 0)"
    by (rule valid_example_payment) simp
  show ?thesis
    using v Payment_roundtrip [OF v] by simp
qed

subsection \<open>C4: the instruction data\<close>

text \<open>
  C4. Whenever the client builds an Initialize instruction for amount \<open>a\<close> and payment
  id \<open>s\<close>, the amount is an integer with \<open>0 < a < 2 ^ 64\<close> and the data is the opcode
  byte 0, the 8 bytes of \<open>a\<close> least significant first, the 4 bytes of the byte length
  of \<open>s\<close> least significant first, and the UTF-8 bytes of \<open>s\<close>. Whenever it builds a
  Complete or a Cancel instruction, the data is the single byte 1 or 2.
\<close>

theorem instruction_data_format:
  "(initializePayment_instruction fpa conn pid w payerKey recipientKey amt paymentId = Inr ins \<longrightarrow>
      (\<exists>a. amt = Num (of_int a) \<and> 0 < a \<and> a < 2 ^ 64 \<and>
           length (Buffer_from paymentId) < 2 ^ 32 \<and>
           data ins =
             [0] @ le_bytes 8 (nat a) @ le_bytes 4 (length (Buffer_from paymentId)) @
             Buffer_from paymentId)) \<and>
   (completePayment_instruction fpa conn dec pid w payerKey recipientKey paymentId = Inr ins' \<longrightarrow>
      data ins' = [1]) \<and>
   (cancelPayment_instruction fpa conn dec pid w payerKey paymentId = Inr ins'' \<longrightarrow>
      data ins'' = [2])"
proof (intro conjI impI)
  assume "initializePayment_instruction fpa conn pid w payerKey recipientKey amt paymentId = Inr ins"
  then obtain ab ib where nz: "\<not> le_zero amt" and a: "serializeU64 amt = Inr ab"
    and i: "serializeString paymentId = Inr ib" and d: "data ins = [0] @ ab @ ib"
    by (auto simp: initializePayment_instruction_def
          split: if_splits sum.splits option.splits prod.splits)
  from serializeU64_Inr [OF a] obtain a
    where a': "amt = Num (of_int a)" "0 \<le> a" "a < 2 ^ 64" "ab = le_bytes 8 (nat a)"
    by blast
  from nz a' have "0 < a"
    by (cases "a = 0") auto
  with a' d serializeString_Inr [OF i]
  show "\<exists>a. amt = Num (of_int a) \<and> 0 < a \<and> a < 2 ^ 64 \<and>
           length (Buffer_from paymentId) < 2 ^ 32 \<and>
           data ins =
             [0] @ le_bytes 8 (nat a) @ le_bytes 4 (length (Buffer_from paymentId)) @
             Buffer_from paymentId"
    by auto
next
  assume "completePayment_instruction fpa conn dec pid w payerKey recipientKey paymentId = Inr ins'"
  then show "data ins' = [1]"
    by (auto simp: completePayment_instruction_def
          split: if_splits sum.splits option.splits prod.splits)
next
  assume "cancelPayment_instruction fpa conn dec pid w payerKey paymentId = Inr ins''"
  then show "data ins'' = [2]"
    by (auto simp: cancelPayment_instruction_def
          split: if_splits sum.splits option.splits prod.splits)
qed

theorem instruction_data_format_witness:
  "(\<exists>ins. initializePayment_instruction example_findProgramAddress example_connection
             example_programId (example_world None) example_payer example_recipient
             (Num 500000) example_id = Inr ins \<and>
          data ins = [0, 32, 161, 7, 0, 0, 0, 0, 0, 3, 0, 0, 0, 80, 45, 49]) \<and>
   (\<exists>ins. completePayment_instruction example_findProgramAddress example_connection deserialize
             example_programId (example_world (Some (example_account 0))) example_payer
             example_recipient example_id = Inr ins \<and>
          data ins = [1]) \<and>
   (\<exists>ins. cancelPayment_instruction example_findProgramAddress example_connection deserialize
             example_programId (example_world (Some (example_account 0))) example_payer
             example_id = Inr ins \<and>
          data ins = [2])"
proof -
  have g: "getPayment example_findProgramAddress example_connection deserialize example_programId
             (example_world (Some (example_account 0))) example_payer example_id =
           Some (example_payment 0)"
    by (rule getPayment_example_account) simp
  have "\<exists>ins. initializePayment_instruction example_findProgramAddress example_connection
             example_programId (example_world None) example_payer example_recipient
             (Num 500000) example_id = Inr ins"
    by (simp add: initializePayment_instruction_def example_getPaymentPDA
          getAccountInfo_example serializeU64_def writeBigUInt64LE_def serializeString_def
          writeUInt32LE_def Let_def Buffer_from_example_id example_id_nonempty)
  then obtain i1 where i1: "initializePayment_instruction example_findProgramAddress
             example_connection example_programId (example_world None) example_payer
             example_recipient (Num 500000) example_id = Inr i1"
    by blast
  have "\<exists>ins. completePayment_instruction example_findProgramAddress example_connection deserialize
             example_programId (example_world (Some (example_account 0))) example_payer
             example_recipient example_id = Inr ins"
    by (simp add: completePayment_instruction_def example_getPaymentPDA g example_payment_def)
  then obtain i2 where i2: "completePayment_instruction example_findProgramAddress
             example_connection deserialize example_programId (example_world (Some (example_account 0)))
             example_payer example_recipient example_id = Inr i2"
    by blast
  have "\<exists>ins. cancelPayment_instruction example_findProgramAddress example_connection deserialize
             example_programId (example_world (Some (example_account 0))) example_payer
             example_id = Inr ins"
    by (simp add: cancelPayment_instruction_def example_getPaymentPDA g example_payment_def)
  then obtain i3 where i3: "cancelPayment_instruction example_findProgramAddress
             example_connection deserialize example_programId (example_world (Some (example_account 0)))
             example_payer example_id = Inr i3"
    by blast
  from instruction_data_format
         [where fpa = example_findProgramAddress and conn = example_connection
            and pid = example_programId and w = "example_world None"
            and payerKey = example_payer and recipientKey = example_recipient
            and amt = "Num 500000" and paymentId = example_id and ins = i1]
       i1
  obtain a where a: "Num 500000 = Num (of_int a)"
    and d1: "data i1 = [0] @ le_bytes 8 (nat a) @ le_bytes 4 (length (Buffer_from example_id)) @
               Buffer_from example_id"
    by blast
  from a have "of_int a = (500000 :: rat)" by simp
  then have "a = 500000" by (simp only: of_int_eq_numeral_iff)
  then have "nat a = 500000" by simp
  moreover have "length (Buffer_from example_id) = 3" by (simp add: Buffer_from_example_id)
  ultimately have "data i1 = [0, 32, 161, 7, 0, 0, 0, 0, 0, 3, 0, 0, 0, 80, 45, 49]"
    using d1
    by (simp only: Buffer_from_example_id le_bytes_example_amount le_bytes_example_length
          append_Cons append_Nil)
  moreover have "data i2 = [1]"
    using instruction_data_format
            [where fpa = example_findProgramAddress and conn = example_connection
               and dec = deserialize and pid = example_programId
               and w = "example_world (Some (example_account 0))"
               and payerKey = example_payer and recipientKey = example_recipient
               and paymentId = example_id and ins' = i2] i2
    by blast
  moreover have "data i3 = [2]"
    using instruction_data_format
            [where fpa = example_findProgramAddress and conn = example_connection
               and dec = deserialize and pid = example_programId
               and w = "example_world (Some (example_account 0))"
               and payerKey = example_payer and paymentId = example_id and ins'' = i3] i3
    by blast
  ultimately show ?thesis
    using i1 i2 i3 by simp
qed

subsection \<open>C5: the account lists\<close>

text \<open>
  C5. Every instruction the client builds carries the positional account list of its
  kind, with the payment account at the address \<open>getPaymentPDA\<close> derived: Initialize
  passes the payer (signer, writable), the payment account (writable), the recipient
  (read-only) and the system program; Complete passes the payer (signer, writable),
  the payment account (writable), the recipient (writable) and the system program;
  Cancel passes the payer (signer, writable), the payment account (writable) and the
  system program.
\<close>

theorem instruction_account_lists:
  "(initializePayment_instruction fpa conn pid w payerKey recipientKey amt paymentId = Inr ins \<longrightarrow>
      (\<exists>pda bump. getPaymentPDA fpa pid payerKey paymentId = Inr (pda, bump) \<and>
         keys ins =
           [\<lparr>pubkey = payerKey, isSigner = True, isWritable = True\<rparr>,
            \<lparr>pubkey = pda, isSigner = False, isWritable = True\<rparr>,
            \<lparr>pubkey = recipientKey, isSigner = False, isWritable = False\<rparr>,
            \<lparr>pubkey = SystemProgram_programId, isSigner = False, isWritable = False\<rparr>])) \<and>
   (completePayment_instruction fpa conn dec pid w payerKey recipientKey paymentId = Inr ins' \<longrightarrow>
      (\<exists>pda bump. getPaymentPDA fpa pid payerKey paymentId = Inr (pda, bump) \<and>
         keys ins' =
           [\<lparr>pubkey = payerKey, isSigner = True, isWritable = True\<rparr>,
            \<lparr>pubkey = pda, isSigner = False, isWritable = True\<rparr>,
            \<lparr>pubkey = recipientKey, isSigner = False, isWritable = True\<rparr>,
            \<lparr>pubkey = SystemProgram_programId, isSigner = False, isWritable = False\<rparr>])) \<and>
   (cancelPayment_instruction fpa conn dec pid w payerKey paymentId = Inr ins'' \<longrightarrow>
      (\<exists>pda bump. getPaymentPDA fpa pid payerKey paymentId = Inr (pda, bump) \<and>
         keys ins'' =
           [\<lparr>pubkey = payerKey, isSigner = True, isWritable = True\<rparr>,
            \<lparr>pubkey = pda, isSigner = False, isWritable = True\<rparr>,
            \<lparr>pubkey = SystemProgram_programId, isSigner = False, isWritable = False\<rparr>]))"
proof (intro conjI impI)
  assume "initializePayment_instruction fpa conn pid w payerKey recipientKey amt paymentId = Inr ins"
  then show "\<exists>pda bump. getPaymentPDA fpa pid payerKey paymentId = Inr (pda, bump) \<and>
         keys ins =
           [\<lparr>pubkey = payerKey, isSigner = True, isWritable = True\<rparr>,
            \<lparr>pubkey = pda, isSigner = False, isWritable = True\<rparr>,
            \<lparr>pubkey = recipientKey, isSigner = False, isWritable = False\<rparr>,
            \<lparr>pubkey = SystemProgram_programId, isSigner = False, isWritable = False\<rparr>]"
    by (auto simp: initializePayment_instruction_def
          split: if_splits sum.splits option.splits prod.splits)
next
  assume "completePayment_instruction fpa conn dec pid w payerKey recipientKey paymentId = Inr ins'"
  then show "\<exists>pda bump. getPaymentPDA fpa pid payerKey paymentId = Inr (pda, bump) \<and>
         keys ins' =
           [\<lparr>pubkey = payerKey, isSigner = True, isWritable = True\<rparr>,
            \<lparr>pubkey = pda, isSigner = False, isWritable = True\<rparr>,
            \<lparr>pubkey = recipientKey, isSigner = False, isWritable = True\<rparr>,
            \<lparr>pubkey = SystemProgram_programId, isSigner = False, isWritable = False\<rparr>]"
    by (auto simp: completePayment_instruction_def
          split: if_splits sum.splits option.splits prod.splits)
next
  assume "cancelPayment_instruction fpa conn dec pid w payerKey paymentId = Inr ins''"
  then show "\<exists>pda bump. getPaymentPDA fpa pid payerKey paymentId = Inr (pda, bump) \<and>
         keys ins'' =
           [\<lparr>pubkey = payerKey, isSigner = True, isWritable = True\<rparr>,
            \<lparr>pubkey = pda, isSigner = False, isWritable = True\<rparr>,
            \<lparr>pubkey = SystemProgram_programId, isSigner = False, isWritable = False\<rparr>]"
    by (auto simp: cancelPayment_instruction_def
          split: if_splits sum.splits option.splits prod.splits)
qed

theorem instruction_account_lists_witness:
  "(\<exists>ins. initializePayment_instruction example_findProgramAddress example_connection
             example_programId (example_world None) example_payer example_recipient
             (Num 500000) example_id = Inr ins \<and>
          keys ins =
            [\<lparr>pubkey = example_payer, isSigner = True, isWritable = True\<rparr>,
             \<lparr>pubkey = example_pda, isSigner = False, isWritable = True\<rparr>,
             \<lparr>pubkey = example_recipient, isSigner = False, isWritable = False\<rparr>,
             \<lparr>pubkey = SystemProgram_programId, isSigner = False, isWritable = False\<rparr>]) \<and>
   (\<exists>ins. completePayment_instruction example_findProgramAddress example_connection deserialize
             example_programId (example_world (Some (example_account 0))) example_payer
             example_recipient example_id = Inr ins \<and>
          keys ins =
            [\<lparr>pubkey = example_payer, isSigner = True, isWritable = True\<rparr>,
             \<lparr>pubkey = example_pda, isSigner = False, isWritable = True\<rparr>,
             \<lparr>pubkey = example_recipient, isSigner = False, isWritable = True\<rparr>,
             \<lparr>pubkey = SystemProgram_programId, isSigner = False, isWritable = False\<rparr>]) \<and>
   (\<exists>ins. cancelPayment_instruction example_findProgramAddress example_connection deserialize
             example_programId (example_world (Some (example_account 0))) example_payer
             example_id = Inr ins \<and>
          keys ins =
            [\<lparr>pubkey = example_payer, isSigner = True, isWritable = True\<rparr>,
             \<lparr>pubkey = example_pda, isSigner = False, isWritable = True\<rparr>,
             \<lparr>pubkey = SystemProgram_programId, isSigner = False, isWritable = False\<rparr>])"
proof -
  have g: "getPayment example_findProgramAddress example_connection deserialize example_programId
             (example_world (Some (example_account 0))) example_payer example_id =
           Some (example_payment 0)"
    by (rule getPayment_example_account) simp
  have "\<exists>ins. initializePayment_instruction example_findProgramAddress example_connection
             example_programId (example_world None) example_payer example_recipient
             (Num 500000) example_id = Inr ins"
    by (simp add: initializePayment_instruction_def example_getPaymentPDA
          getAccountInfo_example serializeU64_def writeBigUInt64LE_def serializeString_def
          writeUInt32LE_def Let_def Buffer_from_example_id example_id_nonempty)
  then obtain i1 where i1: "initializePayment_instruction example_findProgramAddress
             example_connection example_programId (example_world None) example_payer
             example_recipient (Num 500000) example_id = Inr i1"
    by blast
  have "\<exists>ins. completePayment_instruction example_findProgramAddress example_connection deserialize
             example_programId (example_world (Some (example_account 0))) example_payer
             example_recipient example_id = Inr ins"
    by (simp add: completePayment_instruction_def example_getPaymentPDA g example_payment_def)
  then obtain i2 where i2: "completePayment_instruction example_findProgramAddress
             example_connection deserialize example_programId (example_world (Some (example_account 0)))
             example_payer example_recipient example_id = Inr i2"
    by blast
  have "\<exists>ins. cancelPayment_instruction example_findProgramAddress example_connection deserialize
             example_programId (example_world (Some (example_account 0))) example_payer
             example_id = Inr ins"
    by (simp add: cancelPayment_instruction_def example_getPaymentPDA g example_payment_def)
  then obtain i3 where i3: "cancelPayment_instruction example_findProgramAddress
             example_connection deserialize example_programId (example_world (Some (example_account 0)))
             example_payer example_id = Inr i3"
    by blast
  have "keys i1 =
            [\<lparr>pubkey = example_payer, isSigner = True, isWritable = True\<rparr>,
             \<lparr>pubkey = example_pda, isSigner = False, isWritable = True\<rparr>,
             \<lparr>pubkey = example_recipient, isSigner = False, isWritable = False\<rparr>,
             \<lparr>pubkey = SystemProgram_programId, isSigner = False, isWritable = False\<rparr>]"
    using instruction_account_lists
         [where fpa = example_findProgramAddress and conn = example_connection
            and pid = example_programId and w = "example_world None"
            and payerKey = example_payer and recipientKey = example_recipient
            and amt = "Num 500000" and paymentId = example_id and ins = i1]
          i1 example_getPaymentPDA
    by auto
  moreover have "keys i2 =
            [\<lparr>pubkey = example_payer, isSigner = True, isWritable = True\<rparr>,
             \<lparr>pubkey = example_pda, isSigner = False, isWritable = True\<rparr>,
             \<lparr>pubkey = example_recipient, isSigner = False, isWritable = True\<rparr>,
             \<lparr>pubkey = SystemProgram_programId, isSigner = False, isWritable = False\<rparr>]"
    using instruction_account_lists
            [where fpa = example_findProgramAddress and conn = example_connection
               and dec = deserialize and pid = example_programId
               and w = "example_world (Some (example_account 0))"
               and payerKey = example_payer and recipientKey = example_recipient
               and paymentId = example_id and ins' = i2]
          i2 example_getPaymentPDA
    by auto
  moreover have "keys i3 =
            [\<lparr>pubkey = example_payer, isSigner = True, isWritable = True\<rparr>,
             \<lparr>pubkey = example_pda, isSigner = False, isWritable = True\<rparr>,
             \<lparr>pubkey = SystemProgram_programId, isSigner = False, isWritable = False\<rparr>]"
    using instruction_account_lists
            [where fpa = example_findProgramAddress and conn = example_connection
               and dec = deserialize and pid = example_programId
               and w = "example_world (Some (example_account 0))"
               and payerKey = example_payer and paymentId = example_id and ins'' = i3]
          i3 example_getPaymentPDA
    by auto
  ultimately show ?thesis
    using i1 i2 i3 by simp
qed

subsection \<open>C6: the byte layout of a record\<close>

text \<open>
  C6. For every valid Payment record, the encoding is the fields in the order of the
  schema with nothing between them: the 32 bytes of the payer, the 32 bytes of the
  recipient, the amount in 8 bytes least significant first, the byte length of the
  payment id in 4 bytes least significant first and then its UTF-8 bytes, the status
  byte, and the timestamp (a signed value, in two's complement) in 8 bytes least
  significant first; 85 bytes and the payment id in all.
\<close>

theorem Payment_byte_layout:
  assumes "valid_Payment p"
  shows "\<exists>bs. serialize PaymentSchema p = Some bs \<and>
           bs = payer p @ recipient p @ le_bytes 8 (unat (amount p)) @
                le_bytes 4 (length (utf8 (payment_id p))) @ utf8 (payment_id p) @
                [status p] @ le_bytes 8 (nat (sint (timestamp p) mod 2 ^ 64)) \<and>
           length (payer p) = 32 \<and> length (recipient p) = 32 \<and>
           read_le (le_bytes 8 (unat (amount p))) = unat (amount p) \<and>
           read_le (le_bytes 4 (length (utf8 (payment_id p)))) = length (utf8 (payment_id p)) \<and>
           int (read_le (le_bytes 8 (nat (sint (timestamp p) mod 2 ^ 64)))) =
             sint (timestamp p) mod 2 ^ 64 \<and>
           length bs = 85 + length (utf8 (payment_id p))"
proof -
  have l: "length (payer p) = 32" "length (recipient p) = 32" "length (payment_id p) < 2 ^ 32"
    using assms by (simp_all add: valid_Payment_def)
  have b: "unat w < 256 ^ 8" for w :: "64 word"
    using unsigned_less [of w, where ?'a = nat] by simp
  have a: "read_le (le_bytes 8 (unat (amount p))) = unat (amount p)"
    using b by (rule read_le_le_bytes)
  have t: "read_le (le_bytes 8 (unat (timestamp p))) = unat (timestamp p)"
    using b by (rule read_le_le_bytes)
  have "length (utf8 (payment_id p)) < 256 ^ 4"
    using l(3) by (simp add: length_utf8)
  then have n: "read_le (le_bytes 4 (length (utf8 (payment_id p)))) = length (utf8 (payment_id p))"
    by (rule read_le_le_bytes)
  have u: "nat (sint (timestamp p) mod 2 ^ 64) = unat (timestamp p)"
    by (rule unat_sint64 [symmetric])
  have s: "int (unat (timestamp p)) = sint (timestamp p) mod 2 ^ 64"
    by (simp add: unat_sint64)
  show ?thesis
    unfolding u
    using serialize_Payment [OF assms] l(1,2) a n t s
    by (simp add: length_le_bytes)
qed

theorem Payment_byte_layout_witness:
  "valid_Payment (example_payment 0) \<and>
   serialize PaymentSchema (example_payment 0) =
     Some (replicate 32 1 @ replicate 32 2 @
           [32, 161, 7, 0, 0, 0, 0, 0, 3, 0, 0, 0, 80, 45, 49, 0, 0, 241, 83, 101, 0, 0, 0, 0])"
proof -
  have v: "valid_Payment (example_payment 0)"
    by (rule valid_example_payment) simp
  have t: "nat (sint (1700000000 :: 64 word) mod 2 ^ 64) = 1700000000"
    by (simp add: unat_sint64 [symmetric])
  from Payment_byte_layout [OF v]
  have "serialize PaymentSchema (example_payment 0) =
          Some (payer (example_payment 0) @ recipient (example_payment 0) @
                le_bytes 8 (unat (amount (example_payment 0))) @
                le_bytes 4 (length (utf8 (payment_id (example_payment 0)))) @
                utf8 (payment_id (example_payment 0)) @ [status (example_payment 0)] @
                le_bytes 8 (nat (sint (timestamp (example_payment 0)) mod 2 ^ 64)))"
    by blast
  moreover have "payer (example_payment 0) = replicate 32 1"
    and "recipient (example_payment 0) = replicate 32 2"
    and "unat (amount (example_payment 0)) = 500000"
    and "payment_id (example_payment 0) = ''P-1''"
    and "length (utf8 ''P-1'') = 3"
    and "status (example_payment 0) = 0"
    and "nat (sint (timestamp (example_payment 0)) mod 2 ^ 64) = 1700000000"
    by (simp_all add: example_payment_def example_payer_def example_recipient_def t length_utf8)
  ultimately have "serialize PaymentSchema (example_payment 0) =
          Some (replicate 32 1 @ replicate 32 2 @ le_bytes 8 500000 @ le_bytes 4 3 @
                utf8 ''P-1'' @ [0] @ le_bytes 8 1700000000)"
    by (simp only:)
  then show ?thesis
    using v
    by (simp only: utf8_example_id le_bytes_example_amount le_bytes_example_length
          le_bytes_example_timestamp append_Cons append_Nil simp_thms)
qed

subsection \<open>C7: a second Initialize\<close>

text \<open>
  C7, as amended. For every (payer, payment id) pair for which an account already
  exists at the derived address, a second Initialize with the same pair whose
  arguments pass the validation of the inputs (the amount is not \<open>\<le> 0\<close> and the
  payment id is not empty) fails with \<open>PaymentAlreadyExists\<close> before an instruction
  is built: nothing is sent, and the state of the chain, with the existing record
  and every balance, is the one the call started in.
\<close>

theorem initializePayment_existing_account:
  assumes "\<not> le_zero amt" and "paymentId \<noteq> []"
    and "getPaymentPDA fpa pid payerKey paymentId = Inr (pda, bump)"
    and "getAccountInfo conn w pda = Inr (Some acc)"
  shows "initializePayment_instruction fpa conn pid w payerKey recipientKey amt paymentId =
           Inl PaymentAlreadyExists \<and>
         initializePayment fpa conn pid w payerKey recipientKey amt paymentId =
           (Inl PaymentAlreadyExists, w)"
  using assms by (simp add: initializePayment_def initializePayment_instruction_def)

theorem initializePayment_existing_account_witness:
  "\<not> le_zero (Num 500000) \<and> example_id \<noteq> [] \<and>
   getPaymentPDA example_findProgramAddress example_programId example_payer example_id =
     Inr (example_pda, 255) \<and>
   getAccountInfo example_connection (example_world (Some (example_account 0))) example_pda =
     Inr (Some (example_account 0)) \<and>
   initializePayment example_findProgramAddress example_connection example_programId
     (example_world (Some (example_account 0))) example_payer example_recipient
     (Num 500000) example_id =
     (Inl PaymentAlreadyExists, example_world (Some (example_account 0)))"
proof -
  have a: "\<not> le_zero (Num 500000)" by simp
  have b: "example_id \<noteq> []" by (rule example_id_nonempty)
  show ?thesis
    using initializePayment_existing_account
            [where amt = "Num 500000" and paymentId = example_id
               and fpa = example_findProgramAddress and pid = example_programId
               and payerKey = example_payer and pda = example_pda and bump = 255
               and conn = example_connection
               and w = "example_world (Some (example_account 0))"
               and acc = "example_account 0" and recipientKey = example_recipient]
          a b example_getPaymentPDA getAccountInfo_example [of "Some (example_account 0)"]
    by simp
qed

text \<open>
  C7 as stated fails where the second Initialize has amount 0: the account of the
  record exists at the derived address, and the call fails with \<open>InvalidAmount\<close>.
\<close>

theorem initializePayment_existing_account_zero_amount:
  "getPaymentPDA example_findProgramAddress example_programId example_payer example_id =
     Inr (example_pda, 255) \<and>
   getAccountInfo example_connection (example_world (Some (example_account 0))) example_pda =
     Inr (Some (example_account 0)) \<and>
   deserialize PaymentSchema (acct_data (example_account 0)) = Inr (example_payment 0) \<and>
   initializePayment example_findProgramAddress example_connection example_programId
     (example_world (Some (example_account 0))) example_payer example_recipient
     (Num 0) example_id =
     (Inl InvalidAmount, example_world (Some (example_account 0))) \<and>
   fst (initializePayment example_findProgramAddress example_connection example_programId
     (example_world (Some (example_account 0))) example_payer example_recipient
     (Num 0) example_id) \<noteq> Inl PaymentAlreadyExists"
proof -
  have d: "deserialize PaymentSchema (acct_data (example_account 0)) = Inr (example_payment 0)"
    by (rule deserialize_example_account) simp
  show ?thesis
    using d example_getPaymentPDA getAccountInfo_example [of "Some (example_account 0)"]
    by (simp add: initializePayment_def initializePayment_instruction_def)
qed

subsection \<open>C8: Complete and Cancel without a record\<close>




text \<open>
  What the client does on a record whose status is not Pending depends on the decoder:
  where the decoder returns the record, Complete and Cancel fail with
  \<open>InvalidStateTransition\<close>; where the decoder throws on the bytes of the account,
  \<open>getPayment\<close> returns \<open>null\<close> and both fail with \<open>PaymentNotFound\<close>, whatever
  the status stored. In both cases nothing is sent.
\<close>

lemma complete_cancel_by_decoder:
  assumes "getPaymentPDA fpa pid payerKey paymentId = Inr (pda, bump)"
    and "getAccountInfo conn w pda = Inr (Some acc)"
  shows "dec PaymentSchema (acct_data acc) = Inr payment \<Longrightarrow>
           status payment \<noteq> status_value Pending \<Longrightarrow>
           completePayment fpa conn dec pid w payerKey recipientKey paymentId =
             (Inl InvalidStateTransition, w) \<and>
           cancelPayment fpa conn dec pid w payerKey paymentId =
             (Inl InvalidStateTransition, w)"
    and "dec PaymentSchema (acct_data acc) = Inl e \<Longrightarrow>
           completePayment fpa conn dec pid w payerKey recipientKey paymentId =
             (Inl PaymentNotFound, w) \<and>
           cancelPayment fpa conn dec pid w payerKey paymentId = (Inl PaymentNotFound, w)"
  using assms
  by (simp_all add: completePayment_def completePayment_instruction_def cancelPayment_def
        cancelPayment_instruction_def getPayment_def getPayment_try_def)

subsection \<open>C9: the validation of the inputs\<close>

text \<open>
  C9, as amended. Every Initialize call with amount \<open>\<le> 0\<close> fails with
  \<open>InvalidAmount\<close>, and every Initialize call with an empty payment id whose amount
  is not \<open>\<le> 0\<close> fails with \<open>InvalidPaymentId\<close>; in both cases no instruction is
  built, nothing is sent, and the state of the chain is the one the call started in.
\<close>

theorem initializePayment_input_validation:
  "(le_zero amt \<longrightarrow>
      initializePayment_instruction fpa conn pid w payerKey recipientKey amt paymentId =
        Inl InvalidAmount \<and>
      initializePayment fpa conn pid w payerKey recipientKey amt paymentId =
        (Inl InvalidAmount, w)) \<and>
   (\<not> le_zero amt \<and> paymentId = [] \<longrightarrow>
      initializePayment_instruction fpa conn pid w payerKey recipientKey amt paymentId =
        Inl InvalidPaymentId \<and>
      initializePayment fpa conn pid w payerKey recipientKey amt paymentId =
        (Inl InvalidPaymentId, w))"
  by (simp add: initializePayment_def initializePayment_instruction_def)

theorem initializePayment_input_validation_witness:
  "le_zero (Num (- 5)) \<and>
   initializePayment example_findProgramAddress example_connection example_programId
     (example_world None) example_payer example_recipient (Num (- 5)) example_id =
     (Inl InvalidAmount, example_world None) \<and>
   \<not> le_zero (Num 500000) \<and>
   initializePayment example_findProgramAddress example_connection example_programId
     (example_world None) example_payer example_recipient (Num 500000) [] =
     (Inl InvalidPaymentId, example_world None)"
  using initializePayment_input_validation
          [of "Num (- 5)" example_findProgramAddress example_connection example_programId
              "example_world None" example_payer example_recipient example_id]
        initializePayment_input_validation
          [of "Num 500000" example_findProgramAddress example_connection example_programId
              "example_world None" example_payer example_recipient "[]"]
  by simp

text \<open>
  C9 as stated fails where the payment id is empty and the amount is 0: the call fails
  with \<open>InvalidAmount\<close>, not with \<open>InvalidPaymentId\<close>.
\<close>

theorem initializePayment_empty_id_zero_amount:
  "initializePayment example_findProgramAddress example_connection example_programId
     (example_world None) example_payer example_recipient (Num 0) [] =
     (Inl InvalidAmount, example_world None) \<and>
   fst (initializePayment example_findProgramAddress example_connection example_programId
     (example_world None) example_payer example_recipient (Num 0) []) \<noteq> Inl InvalidPaymentId"
  by (simp add: initializePayment_def initializePayment_instruction_def)

subsection \<open>C10: getPayment returns null on every failure\<close>

text \<open>
  C10. \<open>getPayment\<close> returns a record or \<open>null\<close> and never throws: it returns
  \<open>null\<close> when no account exists at the derived address, when the decoder throws
  on the bytes of the account, and whenever anything else inside it throws, so the
  caller cannot tell these apart; this holds for every decoder. \<open>paymentExists\<close>
  returns false exactly when \<open>getPayment\<close> returns \<open>null\<close>, and
  \<open>getPaymentStatus\<close> returns \<open>null\<close> exactly when \<open>getPayment\<close> does.
\<close>

theorem getPayment_null_on_failure:
  "(getPaymentPDA fpa pid payerKey paymentId = Inr (pda, bump) \<and>
    getAccountInfo conn w pda = Inr None \<longrightarrow>
      getPayment fpa conn dec pid w payerKey paymentId = None) \<and>
   (getPaymentPDA fpa pid payerKey paymentId = Inr (pda, bump) \<and>
    getAccountInfo conn w pda = Inr (Some acc) \<and>
    dec PaymentSchema (acct_data acc) = Inl e \<longrightarrow>
      getPayment fpa conn dec pid w payerKey paymentId = None) \<and>
   (getPayment_try fpa conn dec pid w payerKey paymentId = Inl e' \<longrightarrow>
      getPayment fpa conn dec pid w payerKey paymentId = None) \<and>
   (paymentExists fpa conn dec pid w payerKey paymentId = False \<longleftrightarrow>
      getPayment fpa conn dec pid w payerKey paymentId = None) \<and>
   (getPaymentStatus fpa conn dec pid w payerKey paymentId = None \<longleftrightarrow>
      getPayment fpa conn dec pid w payerKey paymentId = None)"
  by (simp add: getPayment_def getPayment_try_def paymentExists_def getPaymentStatus_def
        split: option.splits)

theorem getPayment_null_on_failure_witness:
  "getPaymentPDA example_findProgramAddress example_programId example_payer example_id =
     Inr (example_pda, 255) \<and>
   getAccountInfo example_connection (example_world None) example_pda = Inr None \<and>
   getPayment example_findProgramAddress example_connection deserialize example_programId
     (example_world None) example_payer example_id = None \<and>
   getAccountInfo example_connection
     (example_world (Some \<lparr>lamports = 1, acct_data = [1, 2, 3]\<rparr>)) example_pda =
     Inr (Some \<lparr>lamports = 1, acct_data = [1, 2, 3]\<rparr>) \<and>
   deserialize PaymentSchema (acct_data \<lparr>lamports = 1, acct_data = [1, 2, 3]\<rparr>) =
     Inl MalformedAccountError \<and>
   getPayment_try example_findProgramAddress example_connection deserialize example_programId
     (example_world (Some \<lparr>lamports = 1, acct_data = [1, 2, 3]\<rparr>)) example_payer example_id =
     Inl MalformedAccountError \<and>
   getPayment example_findProgramAddress example_connection deserialize example_programId
     (example_world (Some \<lparr>lamports = 1, acct_data = [1, 2, 3]\<rparr>)) example_payer example_id =
     None \<and>
   paymentExists example_findProgramAddress example_connection deserialize example_programId
     (example_world (Some \<lparr>lamports = 1, acct_data = [1, 2, 3]\<rparr>)) example_payer example_id =
     False \<and>
   getPaymentStatus example_findProgramAddress example_connection deserialize example_programId
     (example_world (Some \<lparr>lamports = 1, acct_data = [1, 2, 3]\<rparr>)) example_payer example_id =
     None"
proof -
  have d: "deserialize PaymentSchema (acct_data \<lparr>lamports = 1, acct_data = [1, 2, 3]\<rparr>) =
             Inl MalformedAccountError"
    by (simp add: deserialize_def PaymentSchema_def)
  have t: "getPayment_try example_findProgramAddress example_connection deserialize example_programId
     (example_world (Some \<lparr>lamports = 1, acct_data = [1, 2, 3]\<rparr>)) example_payer example_id =
     Inl MalformedAccountError"
    using d by (simp add: getPayment_try_def example_getPaymentPDA getAccountInfo_example)
  show ?thesis
    using getPayment_null_on_failure
            [where fpa = example_findProgramAddress and pid = example_programId
               and payerKey = example_payer and paymentId = example_id
               and pda = example_pda and bump = 255 and conn = example_connection
               and dec = deserialize and w = "example_world None"]
          getPayment_null_on_failure
            [where fpa = example_findProgramAddress and pid = example_programId
               and payerKey = example_payer and paymentId = example_id
               and pda = example_pda and bump = 255 and conn = example_connection
               and dec = deserialize
               and w = "example_world (Some \<lparr>lamports = 1, acct_data = [1, 2, 3]\<rparr>)"
               and acc = "\<lparr>lamports = 1, acct_data = [1, 2, 3]\<rparr>"
               and e = MalformedAccountError and e' = MalformedAccountError]
          example_getPaymentPDA d t
          getAccountInfo_example [of None]
          getAccountInfo_example [of "Some \<lparr>lamports = 1, acct_data = [1, 2, 3]\<rparr>"]
    by simp
qed

end
